theory Spec2Isabelle
  imports Complex_Main
begin

section \<open>Arrays, operators and vector kernels\<close>

text \<open>
  The solvers of \<^verbatim>\<open>cupyx/scipy/sparse/linalg/_iterative.py\<close> work on one-dimensional
  arrays of real or complex floats. A vector is a list of complex numbers (a real array has
  entries with imaginary part 0). A Python float is the real number it denotes: rounding,
  infinities and NaN are not part of the model, and a division by zero has HOL's value 0
  where the source produces a non-finite float. The control flow of the solvers only
  branches on \<^verbatim>\<open>b_norm == 0\<close>, \<^verbatim>\<open>resid <= atol\<close> and on integer tests.
\<close>

type_synonym vec = "complex list"

record ndarray =
  shape :: "nat list"
  dtype :: char
  data :: "complex list"

text \<open>
  \<^verbatim>\<open>A\<close> and \<^verbatim>\<open>M\<close> are dense arrays or sparse matrices: the solvers read their
  \<^verbatim>\<open>shape\<close> (and \<^verbatim>\<open>ndim\<close>, its length), their \<^verbatim>\<open>dtype.char\<close>, and multiply them with a
  vector (\<^verbatim>\<open>A @ x\<close>).
\<close>

record operator =
  op_shape :: "nat list"
  op_dtype :: char
  matmul :: "vec \<Rightarrow> vec"

datatype error =
    ValueError string
  | TypeError string
  | UnboundLocalError string
  | IndexError string

text \<open>
  What a run does to its collaborators, in order: every \<^verbatim>\<open>matvec\<close> call (with its argument),
  every \<^verbatim>\<open>psolve\<close> call, every call of the user's callback, and every evaluation of the
  residual test \<^verbatim>\<open>resid <= atol\<close> (with the residual norm and the tolerance compared).
\<close>

datatype event =
    Matvec vec
  | Psolve vec
  | Callback_x vec
  | Callback_pr_norm real
  | Resid_test real real

type_synonym outcome = "(error + vec \<times> int) \<times> event list"

definition cast :: "char \<Rightarrow> vec \<Rightarrow> vec" where
  "cast c v = (if c = CHR ''f'' \<or> c = CHR ''d'' then map (\<lambda>z. complex_of_real (Re z)) v else v)"

definition astype :: "char \<Rightarrow> ndarray \<Rightarrow> ndarray" where
  "astype c a = a\<lparr>dtype := c, data := cast c (data a)\<rparr>"

definition ravel :: "ndarray \<Rightarrow> vec" where
  "ravel a = data a"

definition zeros :: "nat \<Rightarrow> vec" where
  "zeros n = replicate n 0"

definition empty_like :: "vec \<Rightarrow> vec" where
  \<comment> \<open>uninitialised in the source; only called on the length-0 array\<close>
  "empty_like v = replicate (length v) 0"

definition norm2 :: "vec \<Rightarrow> real" where
  \<comment> \<open>\<^verbatim>\<open>cupy.linalg.norm\<close> of a one-dimensional array\<close>
  "norm2 v = sqrt (sum_list (map (\<lambda>z. (cmod z)\<^sup>2) v))"

definition dot_conj :: "vec \<Rightarrow> vec \<Rightarrow> complex" where
  \<comment> \<open>\<^verbatim>\<open>cupy.dot(a.conj(), b)\<close>\<close>
  "dot_conj a b = sum_list (map2 (\<lambda>u v. cnj u * v) a b)"

definition vadd :: "vec \<Rightarrow> vec \<Rightarrow> vec" where
  "vadd a b = map2 (+) a b"

definition vsub :: "vec \<Rightarrow> vec \<Rightarrow> vec" where
  "vsub a b = map2 (-) a b"

definition scal :: "complex \<Rightarrow> vec \<Rightarrow> vec" where
  "scal c v = map ((*) c) v"

definition pymax :: "real \<Rightarrow> real \<Rightarrow> real" where
  \<comment> \<open>Python's \<^verbatim>\<open>max(a, b)\<close>: the first argument unless the second is greater\<close>
  "pymax a b = (if b > a then b else a)"

definition psolve_of :: "operator option \<Rightarrow> vec \<Rightarrow> vec" where
  "psolve_of M v = (case M of None \<Rightarrow> v | Some M' \<Rightarrow> matmul M' v)"

section \<open>Conjugate gradient\<close>

record cg_state =
  st_x :: vec
  st_r :: vec
  st_p :: vec
  st_rho :: complex
  st_iters :: int
  st_resid :: "real option"
  st_trace :: "event list"

text \<open>
  One pass through the body of the \<^verbatim>\<open>while\<close> loop, up to the assignment of
  \<^verbatim>\<open>resid\<close>. Before the first pass \<^verbatim>\<open>p\<close> and \<^verbatim>\<open>resid\<close> are unassigned: \<open>st_p\<close> is
  then never read, and \<open>st_resid\<close> is \<open>None\<close>.
\<close>

definition cg_body :: "(vec \<Rightarrow> vec) \<Rightarrow> (vec \<Rightarrow> vec) \<Rightarrow> bool \<Rightarrow> real \<Rightarrow> cg_state \<Rightarrow> cg_state" where
  "cg_body matvec psolve callback atol st =
     (let z = psolve (st_r st);
          rho1 = st_rho st;
          rho = dot_conj (st_r st) z;
          p = (if st_iters st = 0 then z
               else let beta = rho / rho1 in vadd z (scal beta (st_p st)));
          q = matvec p;
          alpha = rho / dot_conj p q;
          x = vadd (st_x st) (scal alpha p);
          r = vsub (st_r st) (scal alpha q);
          resid = norm2 r
      in \<lparr>st_x = x, st_r = r, st_p = p, st_rho = rho, st_iters = st_iters st + 1,
          st_resid = Some resid,
          st_trace = st_trace st @ [Psolve (st_r st), Matvec p]
            @ (if callback then [Callback_x x] else []) @ [Resid_test resid atol]\<rparr>)"

function cg_loop ::
  "(vec \<Rightarrow> vec) \<Rightarrow> (vec \<Rightarrow> vec) \<Rightarrow> bool \<Rightarrow> real \<Rightarrow> int \<Rightarrow> cg_state \<Rightarrow> cg_state" where
  "cg_loop matvec psolve callback atol maxiter st =
     (if st_iters st < maxiter then
        (let st' = cg_body matvec psolve callback atol st
         in if norm2 (st_r st') \<le> atol then st'
            else cg_loop matvec psolve callback atol maxiter st')
      else st)"
  by pat_completeness auto
termination
  by (relation "measure (\<lambda>(matvec, psolve, callback, atol, maxiter, st). nat (maxiter - st_iters st))")
     (auto simp: cg_body_def Let_def)

declare cg_loop.simps [simp del]

text \<open>Lines 72 to 99: the initial residual, the loop, and the status.\<close>

definition cg_iterate ::
  "(vec \<Rightarrow> vec) \<Rightarrow> (vec \<Rightarrow> vec) \<Rightarrow> bool \<Rightarrow> vec \<Rightarrow> real \<Rightarrow> int \<Rightarrow> vec \<Rightarrow> outcome" where
  "cg_iterate matvec psolve callback b atol maxiter x =
     (let st = cg_loop matvec psolve callback atol maxiter
                 \<lparr>st_x = x, st_r = vsub b (matvec x), st_p = [], st_rho = 0, st_iters = 0,
                  st_resid = None, st_trace = [Matvec x]\<rparr>
      in if st_iters st = maxiter then
           (case st_resid st of
              None \<Rightarrow> (Inl (UnboundLocalError ''resid''), st_trace st)
            | Some resid \<Rightarrow>
                (Inr (st_x st, if \<not> resid \<le> atol then st_iters st else 0), st_trace st))
         else (Inr (st_x st, 0), st_trace st))"

definition cg ::
  "operator \<Rightarrow> ndarray \<Rightarrow> ndarray option \<Rightarrow> real \<Rightarrow> int option \<Rightarrow> operator option \<Rightarrow> bool
     \<Rightarrow> real option \<Rightarrow> outcome" where
  "cg A b x0 tol maxiter M callback atol =
     (if length (op_shape A) \<noteq> 2 \<or> op_shape A ! 0 \<noteq> op_shape A ! 1 then
        (Inl (ValueError ''expected square matrix''), [])
      else if op_dtype A \<notin> set ''fdFD'' then
        (Inl (TypeError ''unsupprted dtype''), [])
      else
        let n = op_shape A ! 0 in
        if \<not> (shape b = [n] \<or> shape b = [n, 1]) then
          (Inl (ValueError ''b has incompatible dimensins''), [])
        else
          let b' = ravel (astype (op_dtype A) b) in
          if n = 0 then (Inr (empty_like b', 0), [])
          else
            let b_norm = norm2 b';
                atol' = (case atol of
                           None \<Rightarrow> if b_norm = 0 then tol else tol * b_norm
                         | Some a \<Rightarrow> pymax a (tol * b_norm))
            in case (case x0 of
                       None \<Rightarrow> Inr (zeros n)
                     | Some x0' \<Rightarrow>
                         if \<not> (shape x0' = [n] \<or> shape x0' = [n, 1]) then
                           Inl (ValueError ''x0 has incompatible dimensins'')
                         else Inr (ravel (astype (op_dtype A) x0'))) of
                 Inl e \<Rightarrow> (Inl e, [])
               | Inr x \<Rightarrow>
                   let maxiter' = (case maxiter of None \<Rightarrow> int n * 10 | Some m \<Rightarrow> m) in
                   if (case M of None \<Rightarrow> False | Some M' \<Rightarrow> op_shape A \<noteq> op_shape M') then
                     (Inl (ValueError ''matrix and preconditioner have different shapes''), [])
                   else cg_iterate (matmul A) (psolve_of M) callback b' atol' maxiter' x)"

section \<open>Restarted GMRES\<close>

text \<open>
  The dense least-squares routine \<^verbatim>\<open>scipy.linalg.lstsq\<close> is a collaborator outside the
  sources: \<open>gmres\<close> takes it as its first argument \<open>lstsq\<close>. The matrices \<^verbatim>\<open>V\<close> and \<^verbatim>\<open>H\<close>
  are allocated in column-major order and are kept here as lists of columns.
\<close>

definition cols_matvec :: "nat \<Rightarrow> vec list \<Rightarrow> vec \<Rightarrow> vec" where
  \<comment> \<open>\<^verbatim>\<open>V @ y\<close> for a matrix with \<open>n\<close> rows given by its columns\<close>
  "cols_matvec n V y = foldl (\<lambda>acc (v, c). vadd acc (scal c v)) (zeros n) (zip V y)"

record gmres_locals =
  l_matvec :: "vec \<Rightarrow> vec"
  l_psolve :: "vec \<Rightarrow> vec"
  l_lstsq :: "vec list \<Rightarrow> vec \<Rightarrow> vec"
  l_n :: nat
  l_b :: vec
  l_b_norm :: real
  l_atol :: real
  l_maxiter :: int
  l_restart :: nat
  l_callback_type :: "string option"

text \<open>
  One step \<open>j\<close> of the Arnoldi loop. \<open>V\<close> holds the columns written so far (\<open>j + 1\<close> of
  them at step \<open>j\<close>), \<open>H\<close> the columns \<open>0 .. j - 1\<close>. Column \<open>j\<close> of \<^verbatim>\<open>H\<close> is written in
  rows \<open>0 .. j + 1\<close>; the rows below keep the zeros of the allocation.
\<close>

definition arnoldi_step ::
  "gmres_locals \<Rightarrow> vec list \<times> vec list \<times> event list \<Rightarrow> nat
     \<Rightarrow> vec list \<times> vec list \<times> event list" where
  "arnoldi_step c s j =
     (case s of (V, H, tr) \<Rightarrow>
        let z = l_psolve c (V ! j);
            u = l_matvec c z;
            h = map (\<lambda>v. dot_conj v u) (take (j + 1) V);
            u' = vsub u (cols_matvec (l_n c) (take (j + 1) V) h);
            hn = norm2 u';
            col = h @ [complex_of_real hn] @ zeros (l_restart c - (j + 1))
        in (if j + 1 < l_restart c then V @ [map (\<lambda>a. a / complex_of_real hn) u'] else V,
            H @ [col],
            tr @ [Psolve (V ! j), Matvec z]))"

text \<open>
  Lines 198 to 216: one restart cycle after a failed termination check, from the residual
  \<open>r\<close> of the iterate \<open>x\<close>. It yields the next iterate and the extended trace.

  Where a norm \<^verbatim>\<open>H[j+1, j]\<close> is zero (an Arnoldi breakdown), the source divides by it at
  line 209, the next basis column is not finite, and \<^verbatim>\<open>scipy.linalg.lstsq\<close> at line 213
  refuses the matrix with a \<^verbatim>\<open>ValueError\<close>, after the operator was applied. The model
  computes with reals and takes the least-squares routine as total: this failure inside the
  loop is not part of it, and the properties about errors below speak of the errors of the
  setup only.
\<close>

definition gmres_cycle ::
  "gmres_locals \<Rightarrow> vec \<Rightarrow> vec \<Rightarrow> real \<Rightarrow> event list \<Rightarrow> vec \<times> event list" where
  "gmres_cycle c x r r_norm tr =
     (let V0 = map (\<lambda>a. a / complex_of_real r_norm) r;
          e = complex_of_real r_norm # zeros (l_restart c)
      in case foldl (arnoldi_step c) ([V0], [], tr) [0..<l_restart c] of
           (V, H, tr') \<Rightarrow>
             let y = l_lstsq c H e
             in (vadd x (cols_matvec (l_n c) V y), tr'))"

record gm_state =
  g_x :: vec
  g_iters :: int
  g_trace :: "event list"

record gm_final =
  f_mx :: vec
  f_r_norm :: real
  f_iters :: int
  f_trace :: "event list"

text \<open>
  The \<^verbatim>\<open>while True\<close> loop. With \<^verbatim>\<open>restart == 0\<close> the array \<^verbatim>\<open>V\<close> has no column and the
  assignment to \<^verbatim>\<open>V[:, 0]\<close> raises; otherwise \<^verbatim>\<open>iters\<close> grows by \<^verbatim>\<open>restart\<close> in every
  cycle, so the loop ends.
\<close>

function gmres_loop :: "gmres_locals \<Rightarrow> gm_state \<Rightarrow> error \<times> event list + gm_final" where
  "gmres_loop c st =
     (let mx = l_psolve c (g_x st);
          r = vsub (l_b c) (l_matvec c mx);
          r_norm = norm2 r;
          tr = g_trace st @ [Psolve (g_x st), Matvec mx]
               @ (if l_callback_type c = Some ''x'' then [Callback_x mx]
                  else if l_callback_type c = Some ''pr_norm'' \<and> g_iters st > 0
                       then [Callback_pr_norm (r_norm / l_b_norm c)]
                  else [])
               @ [Resid_test r_norm (l_atol c)]
      in if r_norm \<le> l_atol c \<or> g_iters st \<ge> l_maxiter c then
           Inr \<lparr>f_mx = mx, f_r_norm = r_norm, f_iters = g_iters st, f_trace = tr\<rparr>
         else if l_restart c = 0 then
           Inl (IndexError ''index 0 is out of bounds for axis 1 with size 0'', tr)
         else
           gmres_loop c \<lparr>g_x = fst (gmres_cycle c (g_x st) r r_norm tr),
                         g_iters = g_iters st + int (l_restart c),
                         g_trace = snd (gmres_cycle c (g_x st) r r_norm tr)\<rparr>)"
  by pat_completeness auto
termination
  by (relation "measure (\<lambda>(c, st). nat (l_maxiter c - g_iters st))") auto

declare gmres_loop.simps [simp del]

text \<open>Lines 183 to 221: the allocations, the loop, and the status.\<close>

definition gmres_iterate :: "gmres_locals \<Rightarrow> int \<Rightarrow> vec \<Rightarrow> outcome" where
  "gmres_iterate c restart x =
     (if restart < 0 then (Inl (ValueError ''negative dimensions are not allowed''), [])
      else
        case gmres_loop (c\<lparr>l_restart := nat restart\<rparr>) \<lparr>g_x = x, g_iters = 0, g_trace = []\<rparr> of
          Inl (e, tr) \<Rightarrow> (Inl e, tr)
        | Inr fin \<Rightarrow>
            (Inr (f_mx fin,
                  if f_iters fin = l_maxiter c \<and> \<not> f_r_norm fin \<le> l_atol c then f_iters fin
                  else 0),
             f_trace fin))"

definition gmres ::
  "(vec list \<Rightarrow> vec \<Rightarrow> vec) \<Rightarrow> operator \<Rightarrow> ndarray \<Rightarrow> ndarray option \<Rightarrow> real \<Rightarrow> int option
     \<Rightarrow> int option \<Rightarrow> operator option \<Rightarrow> bool \<Rightarrow> real option \<Rightarrow> string option \<Rightarrow> outcome" where
  "gmres lstsq A b x0 tol restart maxiter M callback atol callback_type =
     (if length (op_shape A) \<noteq> 2 \<or> op_shape A ! 0 \<noteq> op_shape A ! 1 then
        (Inl (ValueError ''expected square matrix''), [])
      else if op_dtype A \<notin> set ''fdFD'' then
        (Inl (TypeError ''unsupprted dtype''), [])
      else
        let n = op_shape A ! 0 in
        if \<not> (shape b = [n] \<or> shape b = [n, 1]) then
          (Inl (ValueError ''b has incompatible dimensins''), [])
        else
          let b' = ravel (astype (op_dtype A) b) in
          if n = 0 then (Inr (empty_like b', 0), [])
          else
            let b_norm = norm2 b' in
            if b_norm = 0 then (Inr (b', 0), [])
            else
              let atol' = (case atol of
                             None \<Rightarrow> tol * b_norm
                           | Some a \<Rightarrow> pymax a (tol * b_norm))
              in case (case x0 of
                         None \<Rightarrow> Inr (zeros n)
                       | Some x0' \<Rightarrow>
                           if \<not> (shape x0' = [n] \<or> shape x0' = [n, 1]) then
                             Inl (ValueError ''x0 has incompatible dimensins'')
                           else Inr (ravel (astype (op_dtype A) x0'))) of
                   Inl e \<Rightarrow> (Inl e, [])
                 | Inr x \<Rightarrow>
                     let maxiter' = (case maxiter of None \<Rightarrow> int n * 10 | Some m \<Rightarrow> m);
                         restart' = min (case restart of None \<Rightarrow> 20 | Some k \<Rightarrow> k) (int n);
                         callback_type' =
                           (case callback_type of None \<Rightarrow> ''pr_norm'' | Some t \<Rightarrow> t)
                     in
                     if callback_type' \<noteq> ''x'' \<and> callback_type' \<noteq> ''pr_norm'' then
                       (Inl (ValueError ''Unknow callback_type''), [])
                     else if (case M of None \<Rightarrow> False | Some M' \<Rightarrow> op_shape A \<noteq> op_shape M')
                     then
                       (Inl (ValueError ''matrix and preconditioner have different shapes''), [])
                     else
                       gmres_iterate
                         \<lparr>l_matvec = matmul A, l_psolve = psolve_of M, l_lstsq = lstsq,
                          l_n = n, l_b = b', l_b_norm = b_norm, l_atol = atol',
                          l_maxiter = maxiter', l_restart = 0,
                          l_callback_type = (if callback then Some callback_type' else None)\<rparr>
                         restart' x)"

section \<open>Concrete systems\<close>

text \<open>
  A dense array as an operator (given by its rows), and a one-dimensional array.
\<close>

definition dense :: "char \<Rightarrow> vec list \<Rightarrow> operator" where
  "dense c rows =
     \<lparr>op_shape = [length rows, (case rows of [] \<Rightarrow> 0 | row # _ \<Rightarrow> length row)],
      op_dtype = c,
      matmul = (\<lambda>v. map (\<lambda>row. sum_list (map2 (*) row v)) rows)\<rparr>"

definition array1 :: "char \<Rightarrow> vec \<Rightarrow> ndarray" where
  "array1 c v = \<lparr>shape = [length v], dtype = c, data = v\<rparr>"

definition empty_op :: operator where
  "empty_op = \<lparr>op_shape = [0, 0], op_dtype = CHR ''d'', matmul = (\<lambda>v. v)\<rparr>"

text \<open>A 2 by 2 matrix of 64-bit integers: a scalar type the solvers do not support.\<close>

definition int_op :: operator where
  "int_op = \<lparr>op_shape = [2, 2], op_dtype = CHR ''l'', matmul = (\<lambda>v. v)\<rparr>"

definition eye2 :: operator where
  "eye2 = dense (CHR ''d'') [[1, 0], [0, 1]]"

definition unit2 :: ndarray where
  "unit2 = array1 (CHR ''d'') [1, 0]"

definition twice2 :: operator where
  "twice2 = dense (CHR ''d'') [[2, 0], [0, 2]]"

text \<open>
  Modelled from the spec: the dense least-squares routine
  \<^verbatim>\<open>solve_lstsq(matrix, vector) -> vector\<close> (\<^verbatim>\<open>scipy.linalg.lstsq\<close> in the source), which is
  not part of the sources. It minimises the residual 2-norm; for a matrix \<open>H\<close> of full
  column rank (given by its columns) the minimiser is the solution of the normal equations
  \<open>H\<^sup>H H y = H\<^sup>H e\<close>, computed here by elimination. It is used for concrete runs only: the
  properties of \<open>gmres\<close> are proved for every least-squares routine.
\<close>

definition normal_equations :: "vec list \<Rightarrow> vec \<Rightarrow> (vec \<times> complex) list" where
  "normal_equations H e = map (\<lambda>ci. (map (\<lambda>cj. dot_conj ci cj) H, dot_conj ci e)) H"

function eliminate :: "(vec \<times> complex) list \<Rightarrow> vec" where
  "eliminate [] = []"
| "eliminate ((row, rhs) # eqs) =
     (let piv = hd row;
          eqs' = map (\<lambda>(row', rhs').
                        (map2 (\<lambda>a a'. a' - hd row' / piv * a) (tl row) (tl row'),
                         rhs' - hd row' / piv * rhs)) eqs;
          ys = eliminate eqs'
      in (rhs - sum_list (map2 (*) (tl row) ys)) / piv # ys)"
  by pat_completeness auto
termination
  by (relation "measure length") auto

definition lstsq_normal :: "vec list \<Rightarrow> vec \<Rightarrow> vec" where
  "lstsq_normal H e = eliminate (normal_equations H e)"

text \<open>The cyclic shift of three coordinates, and the first unit vector.\<close>

definition shift3 :: operator where
  "shift3 = dense (CHR ''d'') [[0, 0, 1], [1, 0, 0], [0, 1, 0]]"

definition unit3 :: ndarray where
  "unit3 = array1 (CHR ''d'') [1, 0, 0]"

section \<open>Reference definitions\<close>

text \<open>
  The quantities the specification names, written from its words: the flat right-hand side,
  the initial guess (the zero vector by default), the iteration budget (\<open>10 n\<close> by
  default) and the effective absolute tolerance.
\<close>

definition rhs_of :: "operator \<Rightarrow> ndarray \<Rightarrow> vec" where
  "rhs_of A b = ravel (astype (op_dtype A) b)"

definition guess_of :: "operator \<Rightarrow> nat \<Rightarrow> ndarray option \<Rightarrow> vec" where
  "guess_of A n x0 = (case x0 of None \<Rightarrow> zeros n | Some a \<Rightarrow> ravel (astype (op_dtype A) a))"

definition budget_of :: "nat \<Rightarrow> int option \<Rightarrow> int" where
  "budget_of n maxiter = (case maxiter of None \<Rightarrow> int n * 10 | Some m \<Rightarrow> m)"

definition eff_tol :: "real option \<Rightarrow> real \<Rightarrow> real \<Rightarrow> real" where
  "eff_tol atol tol b_norm =
     (case atol of
        None \<Rightarrow> if b_norm = 0 then tol else tol * b_norm
      | Some a \<Rightarrow> max a (tol * b_norm))"

text \<open>
  The errors that the setup of the solvers raises (lines 36 to 70 of \<open>cg\<close>, lines 138 to
  183 of \<open>gmres\<close>), by their messages: the checks of \<open>A\<close>, \<open>b\<close>, \<open>x0\<close>,
  \<open>callback_type\<close> and \<open>M\<close>, and the allocation of \<^verbatim>\<open>V\<close> for a negative \<open>restart\<close>.
\<close>

definition setup_error :: "error \<Rightarrow> bool" where
  "setup_error e \<longleftrightarrow>
     e = ValueError ''expected square matrix''
     \<or> e = TypeError ''unsupprted dtype''
     \<or> e = ValueError ''b has incompatible dimensins''
     \<or> e = ValueError ''x0 has incompatible dimensins''
     \<or> e = ValueError ''Unknow callback_type''
     \<or> e = ValueError ''matrix and preconditioner have different shapes''
     \<or> e = ValueError ''negative dimensions are not allowed''"

text \<open>
  An input that passes the validation of \<open>cg\<close> with \<open>n \<ge> 1\<close>: a square \<open>A\<close> of a
  supported scalar type, \<open>b\<close> and \<open>x0\<close> of shape \<open>(n,)\<close> or \<open>(n, 1)\<close>, and a
  preconditioner of the shape of \<open>A\<close>.
\<close>

definition valid_system ::
  "operator \<Rightarrow> nat \<Rightarrow> ndarray \<Rightarrow> ndarray option \<Rightarrow> operator option \<Rightarrow> bool" where
  "valid_system A n b x0 M \<longleftrightarrow>
     op_shape A = [n, n] \<and> 1 \<le> n \<and> op_dtype A \<in> set ''fdFD''
     \<and> (shape b = [n] \<or> shape b = [n, 1])
     \<and> (case x0 of None \<Rightarrow> True | Some a \<Rightarrow> shape a = [n] \<or> shape a = [n, 1])
     \<and> (case M of None \<Rightarrow> True | Some M' \<Rightarrow> op_shape M' = [n, n])"

text \<open>
  The conjugate gradient recurrence in the specification's words: from \<open>x\<^sub>0\<close> and
  \<open>r\<^sub>0 = b - A x\<^sub>0\<close>, iteration \<open>k\<close> computes \<open>z = M r\<close>, \<open>\<rho> = \<langle>r, z\<rangle>\<close>, the direction
  \<open>p = z\<close> (first iteration) or \<open>p = z + (\<rho> / \<rho>\<^sub>p\<^sub>r\<^sub>e\<^sub>v) p\<^sub>p\<^sub>r\<^sub>e\<^sub>v\<close>, \<open>q = A p\<close>,
  \<open>\<alpha> = \<rho> / \<langle>p, q\<rangle>\<close>, and the updates \<open>x + \<alpha> p\<close> and \<open>r - \<alpha> q\<close>. The value at \<open>k\<close> is
  \<open>(x\<^sub>k, r\<^sub>k, p\<^sub>k, \<rho>\<^sub>k)\<close> after \<open>k\<close> iterations.
\<close>

primrec cg_spec :: "(vec \<Rightarrow> vec) \<Rightarrow> (vec \<Rightarrow> vec) \<Rightarrow> vec \<Rightarrow> vec \<Rightarrow> nat
    \<Rightarrow> vec \<times> vec \<times> vec \<times> complex" where
  "cg_spec A M b x0 0 = (x0, vsub b (A x0), [], 0)"
| "cg_spec A M b x0 (Suc k) =
     (case cg_spec A M b x0 k of
        (x, r, p_prev, rho_prev) \<Rightarrow>
          let z = M r;
              rho = dot_conj r z;
              p = (if k = 0 then z else vadd z (scal (rho / rho_prev) p_prev));
              q = A p;
              alpha = rho / dot_conj p q
          in (vadd x (scal alpha p), vsub r (scal alpha q), p, rho))"

definition spec_x :: "(vec \<Rightarrow> vec) \<Rightarrow> (vec \<Rightarrow> vec) \<Rightarrow> vec \<Rightarrow> vec \<Rightarrow> nat \<Rightarrow> vec" where
  "spec_x A M b x0 k = fst (cg_spec A M b x0 k)"

definition spec_r :: "(vec \<Rightarrow> vec) \<Rightarrow> (vec \<Rightarrow> vec) \<Rightarrow> vec \<Rightarrow> vec \<Rightarrow> nat \<Rightarrow> vec" where
  "spec_r A M b x0 k = fst (snd (cg_spec A M b x0 k))"

definition spec_p :: "(vec \<Rightarrow> vec) \<Rightarrow> (vec \<Rightarrow> vec) \<Rightarrow> vec \<Rightarrow> vec \<Rightarrow> nat \<Rightarrow> vec" where
  "spec_p A M b x0 k = fst (snd (snd (cg_spec A M b x0 k)))"

text \<open>
  What iteration \<open>k\<close> (counted from 0) does to the collaborators: the preconditioner is
  applied to \<open>r\<^sub>k\<close>, the operator to the new direction, the callback (if any) receives the
  new iterate, and the new residual norm is compared with the tolerance.
\<close>

definition cg_events ::
  "(vec \<Rightarrow> vec) \<Rightarrow> (vec \<Rightarrow> vec) \<Rightarrow> vec \<Rightarrow> vec \<Rightarrow> bool \<Rightarrow> real \<Rightarrow> nat \<Rightarrow> event list" where
  "cg_events A M b x0 callback atol k =
     [Psolve (spec_r A M b x0 k), Matvec (spec_p A M b x0 (Suc k))]
     @ (if callback then [Callback_x (spec_x A M b x0 (Suc k))] else [])
     @ [Resid_test (norm2 (spec_r A M b x0 (Suc k))) atol]"

fun is_callback :: "event \<Rightarrow> bool" where
  "is_callback (Callback_x v) = True"
| "is_callback (Callback_pr_norm a) = True"
| "is_callback e = False"

fun is_test :: "event \<Rightarrow> bool" where
  "is_test (Resid_test a t) = True"
| "is_test e = False"

definition callbacks :: "event list \<Rightarrow> event list" where
  "callbacks tr = filter is_callback tr"

definition tests :: "event list \<Rightarrow> event list" where
  "tests tr = filter is_test tr"

text \<open>The locals of \<open>gmres\<close> when its loop starts, for an input that passes validation.\<close>

definition restart_of :: "nat \<Rightarrow> int option \<Rightarrow> int" where
  "restart_of n restart = min (case restart of None \<Rightarrow> 20 | Some k \<Rightarrow> k) (int n)"

definition callback_type_of :: "bool \<Rightarrow> string option \<Rightarrow> string option" where
  "callback_type_of callback callback_type =
     (if callback then Some (case callback_type of None \<Rightarrow> ''pr_norm'' | Some t \<Rightarrow> t)
      else None)"

definition valid_callback_type :: "string option \<Rightarrow> bool" where
  "valid_callback_type callback_type \<longleftrightarrow>
     callback_type = None \<or> callback_type = Some ''x'' \<or> callback_type = Some ''pr_norm''"

definition locals_of ::
  "(vec list \<Rightarrow> vec \<Rightarrow> vec) \<Rightarrow> operator \<Rightarrow> nat \<Rightarrow> ndarray \<Rightarrow> real \<Rightarrow> int option
     \<Rightarrow> int option \<Rightarrow> operator option \<Rightarrow> bool \<Rightarrow> real option \<Rightarrow> string option
     \<Rightarrow> gmres_locals" where
  "locals_of lstsq A n b tol restart maxiter M callback atol callback_type =
     \<lparr>l_matvec = matmul A, l_psolve = psolve_of M, l_lstsq = lstsq, l_n = n,
      l_b = rhs_of A b, l_b_norm = norm2 (rhs_of A b),
      l_atol = eff_tol atol tol (norm2 (rhs_of A b)),
      l_maxiter = budget_of n maxiter, l_restart = nat (restart_of n restart),
      l_callback_type = callback_type_of callback callback_type\<rparr>"

text \<open>
  The iterate of \<open>gmres\<close> after one more restart cycle, the events of a termination check
  on the iterate \<open>x\<close> at iteration count \<open>iters\<close> that are callback invocations, and the
  trace of a finished loop.
\<close>

definition gmres_next :: "gmres_locals \<Rightarrow> vec \<Rightarrow> vec" where
  "gmres_next c x =
     (let r = vsub (l_b c) (l_matvec c (l_psolve c x))
      in fst (gmres_cycle c x r (norm2 r) []))"

definition check_callbacks :: "gmres_locals \<Rightarrow> int \<Rightarrow> vec \<Rightarrow> event list" where
  "check_callbacks c iters x =
     (let mx = l_psolve c x;
          r_norm = norm2 (vsub (l_b c) (l_matvec c mx))
      in if l_callback_type c = Some ''x'' then [Callback_x mx]
         else if l_callback_type c = Some ''pr_norm'' \<and> iters > 0
              then [Callback_pr_norm (r_norm / l_b_norm c)]
         else [])"

definition trace_of :: "error \<times> event list + gm_final \<Rightarrow> event list" where
  "trace_of res = (case res of Inl (e, tr) \<Rightarrow> tr | Inr fin \<Rightarrow> f_trace fin)"

section \<open>Properties\<close>

subsection \<open>Kernels\<close>

lemma norm2_eq_0_iff: "norm2 v = 0 \<longleftrightarrow> (\<forall>z\<in>set v. z = 0)"
proof -
  have "sum_list (map (\<lambda>z. (cmod z)\<^sup>2) v) = 0
          \<longleftrightarrow> (\<forall>y\<in>set (map (\<lambda>z. (cmod z)\<^sup>2) v). y = 0)"
    by (rule sum_list_nonneg_eq_0_iff) auto
  then show ?thesis by (simp add: norm2_def)
qed

lemma cast_zero: "\<forall>z\<in>set v. z = 0 \<Longrightarrow> cast c v = v"
  by (induction v) (auto simp: cast_def)

lemma ravel_astype: "ravel (astype c a) = cast c (data a)"
  by (simp add: ravel_def astype_def)

subsection \<open>Early returns\<close>

text \<open>
  C6. For a square \<open>A\<close> with \<open>n = 0\<close> of a supported scalar type and a compatible empty
  \<open>b\<close>, both \<open>cg\<close> and \<open>gmres\<close> return the empty vector with status 0, and the trace of
  the run is empty: the operator is never applied.
\<close>

theorem trivial_system:
  assumes "op_shape A = [0, 0]" and "op_dtype A \<in> set ''fdFD''"
    and "shape b = [0] \<or> shape b = [0, 1]"
    and "length (data b) = prod_list (shape b)"
  shows "cg A b x0 tol maxiter M callback atol = (Inr ([], 0), [])
       \<and> gmres lstsq A b x0 tol restart maxiter M callback atol callback_type
           = (Inr ([], 0), [])"
proof -
  from assms(3,4) have "data b = []" by auto
  then have e: "empty_like (ravel (astype (op_dtype A) b)) = []"
    by (simp add: empty_like_def ravel_astype cast_def)
  from assms(1-3) e show ?thesis
    by (auto simp: cg_def gmres_def Let_def)
qed

theorem trivial_system_witness:
  "cg empty_op (array1 (CHR ''d'') []) None (1 / 100000) None None False None
     = (Inr ([], 0), [])
   \<and> gmres (\<lambda>H e. []) empty_op (array1 (CHR ''d'') []) None (1 / 100000) None None None
       False None None = (Inr ([], 0), [])"
  using trivial_system [of empty_op "array1 (CHR ''d'') []" None "1 / 100000" None None
      False None "\<lambda>H e. []" None None]
  by (simp add: empty_op_def array1_def)

text \<open>
  C7. For a square \<open>A\<close> with \<open>n \<ge> 1\<close> and a right-hand side whose entries are all zero,
  \<open>gmres\<close> returns \<open>(b, 0)\<close> with an empty trace: the operator is never applied, whatever
  the other arguments are.
\<close>

theorem gmres_zero_rhs:
  assumes "op_shape A = [n, n]" and "n \<ge> 1" and "op_dtype A \<in> set ''fdFD''"
    and "shape b = [n] \<or> shape b = [n, 1]"
    and "\<forall>z\<in>set (data b). z = 0"
  shows "gmres lstsq A b x0 tol restart maxiter M callback atol callback_type
           = (Inr (data b, 0), [])"
proof -
  have c: "ravel (astype (op_dtype A) b) = data b"
    using assms(5) by (simp add: ravel_astype cast_zero)
  have "norm2 (data b) = 0" using assms(5) by (simp add: norm2_eq_0_iff)
  with assms(1-4) c show ?thesis
    by (auto simp: gmres_def Let_def)
qed

theorem gmres_zero_rhs_witness:
  "gmres (\<lambda>H e. []) eye2 (array1 (CHR ''d'') [0, 0]) None (1 / 100000) None None None
     False None None = (Inr ([0, 0], 0), [])"
  using gmres_zero_rhs [of eye2 2 "array1 (CHR ''d'') [0, 0]" "\<lambda>H e. []" None "1 / 100000"
      None None None False None None]
  by (simp add: eye2_def dense_def array1_def)

subsection \<open>Validation\<close>

lemma pymax_max: "pymax a b = max a b"
  by (simp add: pymax_def max_def)

lemma cg_valid:
  assumes "valid_system A n b x0 M"
  shows "cg A b x0 tol maxiter M callback atol
           = cg_iterate (matmul A) (psolve_of M) callback (rhs_of A b)
               (eff_tol atol tol (norm2 (rhs_of A b))) (budget_of n maxiter) (guess_of A n x0)"
  using assms
  by (cases x0; cases M; cases atol; cases maxiter)
     (auto simp: cg_def Let_def valid_system_def rhs_of_def guess_of_def budget_of_def
        eff_tol_def pymax_max simp del: list.set)

lemma gmres_valid:
  assumes "valid_system A n b x0 M" and "norm2 (rhs_of A b) \<noteq> 0"
    and "valid_callback_type callback_type"
  shows "gmres lstsq A b x0 tol restart maxiter M callback atol callback_type
           = gmres_iterate
               ((locals_of lstsq A n b tol restart maxiter M callback atol callback_type)
                  \<lparr>l_restart := 0\<rparr>)
               (restart_of n restart) (guess_of A n x0)"
  using assms
  by (cases x0; cases M; cases atol; cases maxiter; cases callback_type)
     (auto simp: gmres_def Let_def valid_system_def rhs_of_def guess_of_def budget_of_def
        eff_tol_def pymax_max locals_of_def restart_of_def callback_type_of_def
        valid_callback_type_def simp del: list.set)

lemma square_shape: "length s = 2 \<Longrightarrow> s ! 0 = s ! 1 \<Longrightarrow> s = [s ! 0, s ! 0]"
  by (cases s; cases "tl s") auto

lemma cg_trace_invalid:
  "snd (cg A b x0 tol maxiter M callback atol) = [] \<or> valid_system A (op_shape A ! 0) b x0 M"
proof (cases "length (op_shape A) = 2 \<and> op_shape A ! 0 = op_shape A ! 1")
  case False
  then show ?thesis by (auto simp: cg_def)
next
  case True
  then have s: "op_shape A = [op_shape A ! 0, op_shape A ! 0]"
    using square_shape by blast
  with True show ?thesis
    by (cases x0; cases M)
       (auto simp: cg_def Let_def valid_system_def empty_like_def simp del: list.set)
qed

lemma gmres_trace_invalid:
  "snd (gmres lstsq A b x0 tol restart maxiter M callback atol callback_type) = []
   \<or> (valid_system A (op_shape A ! 0) b x0 M \<and> norm2 (rhs_of A b) \<noteq> 0
      \<and> valid_callback_type callback_type)"
proof (cases "length (op_shape A) = 2 \<and> op_shape A ! 0 = op_shape A ! 1")
  case False
  then show ?thesis by (auto simp: gmres_def)
next
  case True
  then have s: "op_shape A = [op_shape A ! 0, op_shape A ! 0]"
    using square_shape by blast
  with True show ?thesis
    by (cases x0; cases M; cases callback_type)
       (auto simp: gmres_def Let_def valid_system_def empty_like_def rhs_of_def
          valid_callback_type_def simp del: list.set)
qed

lemma cg_loop_done: "\<not> st_iters st < maxiter \<Longrightarrow> cg_loop mv ps cb atol maxiter st = st"
  by (simp add: cg_loop.simps)

lemma cg_iterate_error:
  "fst (cg_iterate mv ps cb b atol maxiter x) = Inl e \<Longrightarrow> e = UnboundLocalError ''resid''"
  by (auto simp: cg_iterate_def Let_def split: if_splits option.splits)

lemma gmres_loop_error:
  "gmres_loop c st = Inl (e, tr)
     \<Longrightarrow> e = IndexError ''index 0 is out of bounds for axis 1 with size 0''"
proof (induction c st rule: gmres_loop.induct)
  case (1 c st)
  show ?case
    using "1.prems" "1.IH"
    by (subst (asm) gmres_loop.simps) (auto simp: Let_def split: if_splits)
qed

lemma gmres_iterate_error:
  "fst (gmres_iterate c restart x) = Inl e
     \<Longrightarrow> (\<exists>m. e = ValueError m) \<or> (\<exists>m. e = TypeError m)
     \<Longrightarrow> snd (gmres_iterate c restart x) = []"
  by (auto simp: gmres_iterate_def split: if_splits sum.splits dest: gmres_loop_error)

subsection \<open>Setup errors\<close>

text \<open>
  C3, as amended. A run on an \<open>A\<close> that is not a square two-dimensional matrix fails with
  the shape error \<open>ValueError ''expected square matrix''\<close> in both solvers. A run on a
  square \<open>A\<close> of a supported scalar type and a \<open>b\<close> whose shape is neither \<open>(n,)\<close> nor
  \<open>(n, 1)\<close> fails with the shape error \<open>ValueError ''b has incompatible dimensins''\<close> in
  both solvers. Whenever a run of \<open>cg\<close> fails with a \<open>ValueError\<close> or a \<open>TypeError\<close>, and
  whenever a run of \<open>gmres\<close> fails with one of the errors of its setup (lines 138 to 183),
  the trace is empty: no operator was applied before the error.
\<close>

theorem setup_errors:
  "(length (op_shape A) \<noteq> 2 \<or> op_shape A ! 0 \<noteq> op_shape A ! 1 \<longrightarrow>
      cg A b x0 tol maxiter M callback atol = (Inl (ValueError ''expected square matrix''), [])
    \<and> gmres lstsq A b x0 tol restart maxiter M callback atol callback_type
        = (Inl (ValueError ''expected square matrix''), []))
 \<and> (length (op_shape A) = 2 \<and> op_shape A ! 0 = op_shape A ! 1 \<and> op_dtype A \<in> set ''fdFD''
      \<and> \<not> (shape b = [op_shape A ! 0] \<or> shape b = [op_shape A ! 0, 1]) \<longrightarrow>
      cg A b x0 tol maxiter M callback atol
        = (Inl (ValueError ''b has incompatible dimensins''), [])
    \<and> gmres lstsq A b x0 tol restart maxiter M callback atol callback_type
        = (Inl (ValueError ''b has incompatible dimensins''), []))
 \<and> (\<forall>m. fst (cg A b x0 tol maxiter M callback atol) \<in> {Inl (ValueError m), Inl (TypeError m)}
      \<longrightarrow> snd (cg A b x0 tol maxiter M callback atol) = [])
 \<and> (\<forall>e. fst (gmres lstsq A b x0 tol restart maxiter M callback atol callback_type) = Inl e
        \<and> setup_error e
      \<longrightarrow> snd (gmres lstsq A b x0 tol restart maxiter M callback atol callback_type) = [])"
proof (intro conjI)
  show "length (op_shape A) \<noteq> 2 \<or> op_shape A ! 0 \<noteq> op_shape A ! 1 \<longrightarrow>
      cg A b x0 tol maxiter M callback atol = (Inl (ValueError ''expected square matrix''), [])
    \<and> gmres lstsq A b x0 tol restart maxiter M callback atol callback_type
        = (Inl (ValueError ''expected square matrix''), [])"
    by (auto simp: cg_def gmres_def)
  show "length (op_shape A) = 2 \<and> op_shape A ! 0 = op_shape A ! 1 \<and> op_dtype A \<in> set ''fdFD''
      \<and> \<not> (shape b = [op_shape A ! 0] \<or> shape b = [op_shape A ! 0, 1]) \<longrightarrow>
      cg A b x0 tol maxiter M callback atol
        = (Inl (ValueError ''b has incompatible dimensins''), [])
    \<and> gmres lstsq A b x0 tol restart maxiter M callback atol callback_type
        = (Inl (ValueError ''b has incompatible dimensins''), [])"
    by (simp add: cg_def gmres_def Let_def del: list.set)
  show "\<forall>m. fst (cg A b x0 tol maxiter M callback atol) \<in> {Inl (ValueError m), Inl (TypeError m)}
      \<longrightarrow> snd (cg A b x0 tol maxiter M callback atol) = []"
  proof (intro allI impI)
    fix m
    assume e: "fst (cg A b x0 tol maxiter M callback atol)
                 \<in> {Inl (ValueError m), Inl (TypeError m)}"
    show "snd (cg A b x0 tol maxiter M callback atol) = []"
    proof (rule ccontr)
      assume "snd (cg A b x0 tol maxiter M callback atol) \<noteq> []"
      then have "valid_system A (op_shape A ! 0) b x0 M"
        using cg_trace_invalid [of A b x0 tol maxiter M callback atol] by simp
      from cg_valid [OF this, of tol maxiter callback atol] e cg_iterate_error
      show False by fastforce
    qed
  qed
  show "\<forall>e. fst (gmres lstsq A b x0 tol restart maxiter M callback atol callback_type) = Inl e
        \<and> setup_error e
      \<longrightarrow> snd (gmres lstsq A b x0 tol restart maxiter M callback atol callback_type) = []"
  proof (intro allI impI)
    fix e
    assume e: "fst (gmres lstsq A b x0 tol restart maxiter M callback atol callback_type) = Inl e
                 \<and> setup_error e"
    show "snd (gmres lstsq A b x0 tol restart maxiter M callback atol callback_type) = []"
    proof (rule ccontr)
      assume "snd (gmres lstsq A b x0 tol restart maxiter M callback atol callback_type) \<noteq> []"
      then have v: "valid_system A (op_shape A ! 0) b x0 M" "norm2 (rhs_of A b) \<noteq> 0"
          "valid_callback_type callback_type"
        using gmres_trace_invalid [of lstsq A b x0 tol restart maxiter M callback atol
            callback_type] by simp_all
      note g = gmres_valid [OF v, of lstsq tol restart maxiter callback atol]
      from e have "(\<exists>m'. fst (gmres lstsq A b x0 tol restart maxiter M callback atol
                      callback_type) = Inl (ValueError m'))
                 \<or> (\<exists>m'. fst (gmres lstsq A b x0 tol restart maxiter M callback atol
                      callback_type) = Inl (TypeError m'))"
        by (auto simp: setup_error_def)
      then have "snd (gmres lstsq A b x0 tol restart maxiter M callback atol callback_type) = []"
        unfolding g by (auto dest: gmres_iterate_error)
      with \<open>snd (gmres lstsq A b x0 tol restart maxiter M callback atol callback_type) \<noteq> []\<close>
      show False by simp
    qed
  qed
qed

theorem setup_errors_witness:
  "cg (dense (CHR ''d'') [[1, 0, 0], [0, 1, 0]]) (array1 (CHR ''d'') [1, 2]) None (1 / 100000)
      None None False None = (Inl (ValueError ''expected square matrix''), [])
   \<and> gmres (\<lambda>H e. []) eye2 (array1 (CHR ''d'') [1, 2, 3]) None (1 / 100000) None None None
      False None None = (Inl (ValueError ''b has incompatible dimensins''), [])
   \<and> snd (cg int_op (array1 (CHR ''d'') [1, 2, 3]) None (1 / 100000) None None False None) = []
   \<and> snd (gmres (\<lambda>H e. []) eye2 (array1 (CHR ''d'') [1, 2]) None (1 / 100000) None None None
      True None (Some ''residual'')) = []"
proof -
  let ?wide = "dense (CHR ''d'') [[1, 0, 0], [0, 1, 0]]"
  have 1: "length (op_shape ?wide) \<noteq> 2 \<or> op_shape ?wide ! 0 \<noteq> op_shape ?wide ! 1"
    by (simp add: dense_def)
  have 2: "length (op_shape eye2) = 2 \<and> op_shape eye2 ! 0 = op_shape eye2 ! 1
      \<and> op_dtype eye2 \<in> set ''fdFD''
      \<and> \<not> (shape (array1 (CHR ''d'') [1, 2, 3]) = [op_shape eye2 ! 0]
           \<or> shape (array1 (CHR ''d'') [1, 2, 3]) = [op_shape eye2 ! 0, 1])"
    by (simp add: eye2_def dense_def array1_def)
  have 3: "fst (cg int_op (array1 (CHR ''d'') [1, 2, 3]) None (1 / 100000) None None False None)
      \<in> {Inl (ValueError ''unsupprted dtype''), Inl (TypeError ''unsupprted dtype'')}"
    by (simp add: cg_def int_op_def)
  have 4: "fst (gmres (\<lambda>H e. []) eye2 (array1 (CHR ''d'') [1, 2]) None (1 / 100000) None None
      None True None (Some ''residual'')) = Inl (ValueError ''Unknow callback_type'')
      \<and> setup_error (ValueError ''Unknow callback_type'')"
    by (simp add: gmres_def eye2_def dense_def array1_def Let_def ravel_astype cast_def
        norm2_def zeros_def setup_error_def)
  from 1 setup_errors [of ?wide "array1 (CHR ''d'') [1, 2]" None "1 / 100000" None None False
      None "\<lambda>H e. []" None None]
  have a: "cg ?wide (array1 (CHR ''d'') [1, 2]) None (1 / 100000) None None False None
      = (Inl (ValueError ''expected square matrix''), [])"
    by blast
  from 2 setup_errors [of eye2 "array1 (CHR ''d'') [1, 2, 3]" None "1 / 100000" None None False
      None "\<lambda>H e. []" None None]
  have b: "gmres (\<lambda>H e. []) eye2 (array1 (CHR ''d'') [1, 2, 3]) None (1 / 100000) None None
      None False None None = (Inl (ValueError ''b has incompatible dimensins''), [])"
    by blast
  from 3 setup_errors [of int_op "array1 (CHR ''d'') [1, 2, 3]" None "1 / 100000" None None
      False None "\<lambda>H e. []" None None]
  have c: "snd (cg int_op (array1 (CHR ''d'') [1, 2, 3]) None (1 / 100000) None None False None)
      = []"
    by blast
  from 4 setup_errors [of eye2 "array1 (CHR ''d'') [1, 2]" None "1 / 100000" None None True
      None "\<lambda>H e. []" None "Some ''residual''"]
  have d: "snd (gmres (\<lambda>H e. []) eye2 (array1 (CHR ''d'') [1, 2]) None (1 / 100000) None None
      None True None (Some ''residual'')) = []"
    by blast
  from a b c d show ?thesis by simp
qed

text \<open>
  The claim as first stated fails for a square \<open>A\<close> of an unsupported scalar type: a
  2 by 2 integer matrix with a right-hand side of length 3 raises the \<open>TypeError\<close>, which is
  tested before the shape of \<open>b\<close>.
\<close>

theorem b_shape_counterexample:
  "op_shape int_op = [2, 2] \<and> shape (array1 (CHR ''d'') [1, 2, 3]) = [3]
   \<and> cg int_op (array1 (CHR ''d'') [1, 2, 3]) None (1 / 100000) None None False None
       = (Inl (TypeError ''unsupprted dtype''), [])
   \<and> gmres (\<lambda>H e. []) int_op (array1 (CHR ''d'') [1, 2, 3]) None (1 / 100000) None None None
       False None None = (Inl (TypeError ''unsupprted dtype''), [])"
  by (simp add: int_op_def array1_def cg_def gmres_def)

subsection \<open>Order of the checks\<close>

text \<open>
  C9. With \<open>n \<ge> 1\<close> and a right-hand side whose entries are all zero, \<open>gmres\<close> returns
  \<open>(b, 0)\<close> without raising, also when \<open>x0\<close> has an incompatible shape and
  \<open>callback_type\<close> is neither \<open>''x''\<close> nor \<open>''pr_norm''\<close>: both are validated only after
  the early return. On a right-hand side of nonzero norm the same \<open>x0\<close> raises, and with a
  valid \<open>x0\<close> the same \<open>callback_type\<close> raises.
\<close>

theorem gmres_zero_rhs_before_validation:
  assumes "op_shape A = [n, n]" and "n \<ge> 1" and "op_dtype A \<in> set ''fdFD''"
    and "shape b = [n] \<or> shape b = [n, 1]"
    and "\<forall>z\<in>set (data b). z = 0"
    and "\<not> (shape a = [n] \<or> shape a = [n, 1])"
    and "t \<noteq> ''x''" and "t \<noteq> ''pr_norm''"
    and "shape b' = [n] \<or> shape b' = [n, 1]"
    and "norm2 (rhs_of A b') \<noteq> 0"
  shows "gmres lstsq A b (Some a) tol restart maxiter M callback atol (Some t)
           = (Inr (data b, 0), [])
       \<and> gmres lstsq A b' (Some a) tol restart maxiter M callback atol (Some t)
           = (Inl (ValueError ''x0 has incompatible dimensins''), [])
       \<and> gmres lstsq A b' None tol restart maxiter M callback atol (Some t)
           = (Inl (ValueError ''Unknow callback_type''), [])"
proof -
  have c: "ravel (astype (op_dtype A) b) = data b"
    using assms(5) by (simp add: ravel_astype cast_zero)
  have z: "norm2 (data b) = 0" using assms(5) by (simp add: norm2_eq_0_iff)
  have 1: "gmres lstsq A b (Some a) tol restart maxiter M callback atol (Some t)
             = (Inr (data b, 0), [])"
    using assms(1-4) c z by (auto simp: gmres_def Let_def simp del: list.set)
  have 2: "gmres lstsq A b' (Some a) tol restart maxiter M callback atol (Some t)
             = (Inl (ValueError ''x0 has incompatible dimensins''), [])"
    using assms(1-3,6,9,10) by (auto simp: gmres_def Let_def rhs_of_def simp del: list.set)
  have 3: "gmres lstsq A b' None tol restart maxiter M callback atol (Some t)
             = (Inl (ValueError ''Unknow callback_type''), [])"
    using assms(1-3,7-10) by (auto simp: gmres_def Let_def rhs_of_def simp del: list.set)
  from 1 2 3 show ?thesis by simp
qed

theorem gmres_zero_rhs_before_validation_witness:
  "gmres (\<lambda>H e. []) eye2 (array1 (CHR ''d'') [0, 0]) (Some (array1 (CHR ''d'') [1, 2, 3]))
      (1 / 100000) None None None True None (Some ''residual'') = (Inr ([0, 0], 0), [])
   \<and> gmres (\<lambda>H e. []) eye2 (array1 (CHR ''d'') [3, 4]) (Some (array1 (CHR ''d'') [1, 2, 3]))
      (1 / 100000) None None None True None (Some ''residual'')
      = (Inl (ValueError ''x0 has incompatible dimensins''), [])
   \<and> gmres (\<lambda>H e. []) eye2 (array1 (CHR ''d'') [3, 4]) None
      (1 / 100000) None None None True None (Some ''residual'')
      = (Inl (ValueError ''Unknow callback_type''), [])"
proof -
  have n: "norm2 (rhs_of eye2 (array1 (CHR ''d'') [3, 4])) \<noteq> 0"
    by (simp add: norm2_eq_0_iff rhs_of_def ravel_astype cast_def array1_def eye2_def
        dense_def)
  show ?thesis
    using n gmres_zero_rhs_before_validation [of eye2 2 "array1 (CHR ''d'') [0, 0]"
        "array1 (CHR ''d'') [1, 2, 3]" "''residual''" "array1 (CHR ''d'') [3, 4]"
        "\<lambda>H e. []" "1 / 100000" None None None True None]
    by (simp add: eye2_def dense_def array1_def)
qed

subsection \<open>An empty iteration budget in \<open>cg\<close>\<close>

text \<open>
  C10. For an input that passes validation with \<open>n \<ge> 1\<close> and \<open>maxiter = 0\<close>, the loop
  body of \<open>cg\<close> never runs (the trace holds the initial \<open>matvec\<close> and nothing else), and
  the status test reads the unassigned \<open>resid\<close>: the call fails instead of returning.
\<close>

theorem cg_maxiter_zero:
  assumes "valid_system A n b x0 M"
  shows "cg A b x0 tol (Some 0) M callback atol
           = (Inl (UnboundLocalError ''resid''), [Matvec (guess_of A n x0)])"
  by (simp add: cg_valid [OF assms] budget_of_def cg_iterate_def cg_loop_done)

theorem cg_maxiter_zero_witness:
  "cg eye2 (array1 (CHR ''d'') [3, 4]) None (1 / 100000) (Some 0) None False None
     = (Inl (UnboundLocalError ''resid''), [Matvec [0, 0]])"
proof -
  have v: "valid_system eye2 2 (array1 (CHR ''d'') [3, 4]) None None"
    by (simp add: valid_system_def eye2_def dense_def array1_def)
  show ?thesis
    using cg_maxiter_zero [OF v, of "1 / 100000" False None]
    by (simp add: guess_of_def zeros_def numeral_2_eq_2)
qed

subsection \<open>The loop of \<open>cg\<close>\<close>

lemma cg_body_trace:
  "st_trace (cg_body A M cb atol st)
     = st_trace st @ [Psolve (st_r st), Matvec (st_p (cg_body A M cb atol st))]
       @ (if cb then [Callback_x (st_x (cg_body A M cb atol st))] else [])
       @ [Resid_test (norm2 (st_r (cg_body A M cb atol st))) atol]"
  by (simp add: cg_body_def Let_def)

lemma cg_body_resid:
  "st_resid (cg_body A M cb atol st) = Some (norm2 (st_r (cg_body A M cb atol st)))"
  by (simp add: cg_body_def Let_def)

lemma cg_body_spec:
  assumes "(st_x st, st_r st, st_p st, st_rho st) = cg_spec A M b x0 k"
    and "st_iters st = int k"
  shows "(st_x (cg_body A M cb atol st), st_r (cg_body A M cb atol st),
          st_p (cg_body A M cb atol st), st_rho (cg_body A M cb atol st))
           = cg_spec A M b x0 (Suc k)"
    and "st_iters (cg_body A M cb atol st) = int (Suc k)"
    and "st_trace (cg_body A M cb atol st) = st_trace st @ cg_events A M b x0 cb atol k"
    and "st_resid (cg_body A M cb atol st) = Some (norm2 (spec_r A M b x0 (Suc k)))"
proof -
  have s: "cg_spec A M b x0 k = (st_x st, st_r st, st_p st, st_rho st)"
    using assms(1) by simp
  have z: "(st_iters st = 0) = (k = 0)" using assms(2) by simp
  have "cg_spec A M b x0 (Suc k)
          = (st_x (cg_body A M cb atol st), st_r (cg_body A M cb atol st),
             st_p (cg_body A M cb atol st), st_rho (cg_body A M cb atol st))"
    unfolding cg_spec.simps s by (simp add: cg_body_def Let_def z)
  then show eq: "(st_x (cg_body A M cb atol st), st_r (cg_body A M cb atol st),
          st_p (cg_body A M cb atol st), st_rho (cg_body A M cb atol st))
           = cg_spec A M b x0 (Suc k)"
    by simp
  show "st_iters (cg_body A M cb atol st) = int (Suc k)"
    using assms(2) by (simp add: cg_body_def Let_def)
  have x: "st_x (cg_body A M cb atol st) = spec_x A M b x0 (Suc k)"
      "st_r (cg_body A M cb atol st) = spec_r A M b x0 (Suc k)"
      "st_p (cg_body A M cb atol st) = spec_p A M b x0 (Suc k)"
    by (simp_all only: spec_x_def spec_r_def spec_p_def eq [symmetric] fst_conv snd_conv)
  have r0: "st_r st = spec_r A M b x0 k"
    by (simp only: spec_r_def s fst_conv snd_conv)
  show "st_trace (cg_body A M cb atol st) = st_trace st @ cg_events A M b x0 cb atol k"
    by (simp only: cg_body_trace x r0 cg_events_def)
  show "st_resid (cg_body A M cb atol st) = Some (norm2 (spec_r A M b x0 (Suc k)))"
    by (simp only: cg_body_resid x)
qed

lemma cg_loop_spec:
  assumes "(st_x st, st_r st, st_p st, st_rho st) = cg_spec A M b x0 k"
    and "st_iters st = int k"
  shows "\<exists>K\<ge>k.
      (st_x (cg_loop A M cb atol maxiter st), st_r (cg_loop A M cb atol maxiter st),
       st_p (cg_loop A M cb atol maxiter st), st_rho (cg_loop A M cb atol maxiter st))
        = cg_spec A M b x0 K
    \<and> st_iters (cg_loop A M cb atol maxiter st) = int K
    \<and> st_trace (cg_loop A M cb atol maxiter st)
        = st_trace st @ concat (map (cg_events A M b x0 cb atol) [k..<K])
    \<and> st_resid (cg_loop A M cb atol maxiter st)
        = (if K = k then st_resid st else Some (norm2 (spec_r A M b x0 K)))
    \<and> (\<forall>j. k < j \<and> j < K \<longrightarrow> \<not> norm2 (spec_r A M b x0 j) \<le> atol)
    \<and> (if K = k then \<not> int k < maxiter
        else int K \<le> maxiter \<and> (norm2 (spec_r A M b x0 K) \<le> atol \<or> int K = maxiter))"
  using assms
proof (induction A M cb atol maxiter st arbitrary: k rule: cg_loop.induct)
  case (1 A M cb atol maxiter st)
  let ?st' = "cg_body A M cb atol st"
  note body = cg_body_spec [OF "1.prems", of cb atol]
  show ?case
  proof (cases "st_iters st < maxiter")
    case False
    then have "cg_loop A M cb atol maxiter st = st" by (simp add: cg_loop.simps)
    with False "1.prems" show ?thesis
      by (intro exI [of _ k]) simp
  next
    case lt: True
    show ?thesis
    proof (cases "norm2 (st_r ?st') \<le> atol")
      case True
      then have e: "cg_loop A M cb atol maxiter st = ?st'"
        using lt by (subst cg_loop.simps) (simp add: Let_def)
      have r: "st_r ?st' = spec_r A M b x0 (Suc k)"
        using body(1) by (simp add: spec_r_def) (metis fst_conv snd_conv)
      show ?thesis
        unfolding e
        using body True lt "1.prems"(2) r
        by (intro exI [of _ "Suc k"]) auto
    next
      case False
      then have e: "cg_loop A M cb atol maxiter st = cg_loop A M cb atol maxiter ?st'"
        using lt by (subst cg_loop.simps) (simp add: Let_def)
      have r: "st_r ?st' = spec_r A M b x0 (Suc k)"
        using body(1) by (simp add: spec_r_def) (metis fst_conv snd_conv)
      from "1.IH" [OF lt refl False body(1) body(2)]
      obtain K where K: "K \<ge> Suc k"
        "(st_x (cg_loop A M cb atol maxiter ?st'), st_r (cg_loop A M cb atol maxiter ?st'),
          st_p (cg_loop A M cb atol maxiter ?st'), st_rho (cg_loop A M cb atol maxiter ?st'))
           = cg_spec A M b x0 K"
        "st_iters (cg_loop A M cb atol maxiter ?st') = int K"
        "st_trace (cg_loop A M cb atol maxiter ?st')
           = st_trace ?st' @ concat (map (cg_events A M b x0 cb atol) [Suc k..<K])"
        "st_resid (cg_loop A M cb atol maxiter ?st')
           = (if K = Suc k then st_resid ?st' else Some (norm2 (spec_r A M b x0 K)))"
        "\<forall>j. Suc k < j \<and> j < K \<longrightarrow> \<not> norm2 (spec_r A M b x0 j) \<le> atol"
        "if K = Suc k then \<not> int (Suc k) < maxiter
         else int K \<le> maxiter \<and> (norm2 (spec_r A M b x0 K) \<le> atol \<or> int K = maxiter)"
        by blast
      have upt: "[k..<K] = k # [Suc k..<K]"
        using K(1) by (simp add: upt_conv_Cons)
      have nj: "\<forall>j. k < j \<and> j < K \<longrightarrow> \<not> norm2 (spec_r A M b x0 j) \<le> atol"
      proof (intro allI impI)
        fix j assume j: "k < j \<and> j < K"
        show "\<not> norm2 (spec_r A M b x0 j) \<le> atol"
        proof (cases "j = Suc k")
          case True
          with False r show ?thesis by simp
        next
          case False
          with j K(6) show ?thesis by auto
        qed
      qed
      have fin: "if K = k then \<not> int k < maxiter
         else int K \<le> maxiter \<and> (norm2 (spec_r A M b x0 K) \<le> atol \<or> int K = maxiter)"
        using K(1,7) lt "1.prems"(2) by (auto split: if_splits)
      have res: "st_resid (cg_loop A M cb atol maxiter ?st')
           = (if K = k then st_resid st else Some (norm2 (spec_r A M b x0 K)))"
        using K(1,5) body(4) by auto
      show ?thesis
        unfolding e
        using K(1,2,3) K(4) body(3) upt nj fin res
        by (intro exI [of _ K]) simp
    qed
  qed
qed

text \<open>A run of \<open>cg\<close> on the 2 by 2 identity with \<open>b = (1, 0)\<close> and a callback.\<close>

lemma cg_eye2_run:
  "cg eye2 unit2 None (1 / 100000) None None True None
     = (Inr ([1, 0], 0),
        [Matvec [0, 0], Psolve [1, 0], Matvec [1, 0], Callback_x [1, 0],
         Resid_test 0 (1 / 100000)])"
proof -
  have v: "valid_system eye2 2 unit2 None None"
    by (simp add: valid_system_def eye2_def dense_def array1_def unit2_def)
  have b: "rhs_of eye2 unit2 = [1, 0]"
    by (simp add: rhs_of_def ravel_astype cast_def unit2_def array1_def eye2_def dense_def)
  have n: "norm2 [1, 0] = 1" "norm2 [0, 0] = 0" by (simp_all add: norm2_def)
  have A: "matmul eye2 [0, 0] = [0, 0]" "matmul eye2 [1, 0] = [1, 0]"
    by (simp_all add: eye2_def dense_def)
  show ?thesis
    unfolding cg_valid [OF v] b
    apply (simp add: cg_iterate_def guess_of_def zeros_def numeral_2_eq_2 eff_tol_def n
        budget_of_def psolve_of_def A vsub_def)
    apply (subst cg_loop.simps)
    apply (simp add: cg_body_def Let_def psolve_of_def A dot_conj_def vadd_def vsub_def
        scal_def n)
    done
qed

lemma cg_iterate_run:
  "\<exists>K. snd (cg_iterate A M cb b atol maxiter x0)
          = Matvec x0 # concat (map (cg_events A M b x0 cb atol) [0..<K])
      \<and> (\<forall>sol info. fst (cg_iterate A M cb b atol maxiter x0) = Inr (sol, info)
            \<longrightarrow> sol = spec_x A M b x0 K)
      \<and> (\<forall>j. 1 \<le> j \<and> j < K \<longrightarrow> \<not> norm2 (spec_r A M b x0 j) \<le> atol)
      \<and> (if K = 0 then maxiter \<le> 0
          else int K \<le> maxiter \<and> (norm2 (spec_r A M b x0 K) \<le> atol \<or> int K = maxiter))"
proof -
  let ?st0 = "\<lparr>st_x = x0, st_r = vsub b (A x0), st_p = [], st_rho = 0, st_iters = 0,
               st_resid = None, st_trace = [Matvec x0]\<rparr>"
  let ?fin = "cg_loop A M cb atol maxiter ?st0"
  have "(st_x ?st0, st_r ?st0, st_p ?st0, st_rho ?st0) = cg_spec A M b x0 0"
    and "st_iters ?st0 = int 0"
    by simp_all
  from cg_loop_spec [OF this, of cb atol maxiter]
  obtain K where K:
    "(st_x ?fin, st_r ?fin, st_p ?fin, st_rho ?fin) = cg_spec A M b x0 K"
    "st_trace ?fin = st_trace ?st0 @ concat (map (cg_events A M b x0 cb atol) [0..<K])"
    "\<forall>j. 0 < j \<and> j < K \<longrightarrow> \<not> norm2 (spec_r A M b x0 j) \<le> atol"
    "if K = 0 then \<not> int 0 < maxiter
     else int K \<le> maxiter \<and> (norm2 (spec_r A M b x0 K) \<le> atol \<or> int K = maxiter)"
    by blast
  have x: "st_x ?fin = spec_x A M b x0 K"
    by (simp only: spec_x_def K(1) [symmetric] fst_conv)
  have tr: "snd (cg_iterate A M cb b atol maxiter x0) = st_trace ?fin"
    by (simp add: cg_iterate_def Let_def split: option.splits)
  have sol: "\<forall>sol info. fst (cg_iterate A M cb b atol maxiter x0) = Inr (sol, info)
            \<longrightarrow> sol = st_x ?fin"
    by (auto simp: cg_iterate_def Let_def split: option.splits if_splits)
  show ?thesis
  proof (intro exI [of _ K] conjI)
    show "snd (cg_iterate A M cb b atol maxiter x0)
            = Matvec x0 # concat (map (cg_events A M b x0 cb atol) [0..<K])"
      using tr K(2) by simp
    show "\<forall>sol info. fst (cg_iterate A M cb b atol maxiter x0) = Inr (sol, info)
            \<longrightarrow> sol = spec_x A M b x0 K"
      using sol x by simp
    show "\<forall>j. 1 \<le> j \<and> j < K \<longrightarrow> \<not> norm2 (spec_r A M b x0 j) \<le> atol"
      using K(3) by auto
    show "if K = 0 then maxiter \<le> 0
          else int K \<le> maxiter \<and> (norm2 (spec_r A M b x0 K) \<le> atol \<or> int K = maxiter)"
      using K(4) by (auto split: if_splits)
  qed
qed

text \<open>
  C5. On an input that passes validation with \<open>n \<ge> 1\<close>, the run of \<open>cg\<close> is the
  recurrence of the specification: it applies the operator to \<open>x\<^sub>0\<close> (for
  \<open>r\<^sub>0 = b - A x\<^sub>0\<close>) and then performs the iterations \<open>0, \<dots>, K - 1\<close> of \<open>cg_spec\<close>, each
  with one preconditioner application to \<open>r\<^sub>k\<close>, one operator application to the new
  direction and one residual test against the effective tolerance; a returned solution is
  \<open>x\<^sub>K\<close>. No test before the last one passed, and the run stopped because the last test
  passed or the iteration count reached \<open>maxiter\<close> (with \<open>K = 0\<close> when \<open>maxiter \<le> 0\<close>).
\<close>

theorem cg_iteration:
  assumes "valid_system A n b x0 M"
  shows "\<exists>K. snd (cg A b x0 tol maxiter M callback atol)
          = Matvec (guess_of A n x0)
            # concat (map (cg_events (matmul A) (psolve_of M) (rhs_of A b) (guess_of A n x0)
                         callback (eff_tol atol tol (norm2 (rhs_of A b)))) [0..<K])
      \<and> (\<forall>sol info. fst (cg A b x0 tol maxiter M callback atol) = Inr (sol, info)
            \<longrightarrow> sol = spec_x (matmul A) (psolve_of M) (rhs_of A b) (guess_of A n x0) K)
      \<and> (\<forall>j. 1 \<le> j \<and> j < K \<longrightarrow>
            \<not> norm2 (spec_r (matmul A) (psolve_of M) (rhs_of A b) (guess_of A n x0) j)
                \<le> eff_tol atol tol (norm2 (rhs_of A b)))
      \<and> (if K = 0 then budget_of n maxiter \<le> 0
          else int K \<le> budget_of n maxiter
             \<and> (norm2 (spec_r (matmul A) (psolve_of M) (rhs_of A b) (guess_of A n x0) K)
                   \<le> eff_tol atol tol (norm2 (rhs_of A b))
                \<or> int K = budget_of n maxiter))"
  unfolding cg_valid [OF assms] by (rule cg_iterate_run)

theorem cg_iteration_witness:
  "valid_system eye2 2 unit2 None None
   \<and> (\<exists>K. snd (cg eye2 unit2 None (1 / 100000) None None True None)
          = Matvec (guess_of eye2 2 None)
            # concat (map (cg_events (matmul eye2) (psolve_of None) (rhs_of eye2 unit2)
                         (guess_of eye2 2 None) True
                         (eff_tol None (1 / 100000) (norm2 (rhs_of eye2 unit2)))) [0..<K])
      \<and> (\<forall>sol info. fst (cg eye2 unit2 None (1 / 100000) None None True None) = Inr (sol, info)
            \<longrightarrow> sol = spec_x (matmul eye2) (psolve_of None) (rhs_of eye2 unit2)
                         (guess_of eye2 2 None) K)
      \<and> (\<forall>j. 1 \<le> j \<and> j < K \<longrightarrow>
            \<not> norm2 (spec_r (matmul eye2) (psolve_of None) (rhs_of eye2 unit2)
                       (guess_of eye2 2 None) j)
                \<le> eff_tol None (1 / 100000) (norm2 (rhs_of eye2 unit2)))
      \<and> (if K = 0 then budget_of 2 None \<le> 0
          else int K \<le> budget_of 2 None
             \<and> (norm2 (spec_r (matmul eye2) (psolve_of None) (rhs_of eye2 unit2)
                         (guess_of eye2 2 None) K)
                   \<le> eff_tol None (1 / 100000) (norm2 (rhs_of eye2 unit2))
                \<or> int K = budget_of 2 None)))"
proof -
  have v: "valid_system eye2 2 unit2 None None"
    by (simp add: valid_system_def eye2_def dense_def array1_def unit2_def)
  from v cg_iteration [OF v, of "1 / 100000" None True None] show ?thesis
    by (rule conjI)
qed

subsection \<open>The loop of \<open>gmres\<close>\<close>

lemma callbacks_append [simp]: "callbacks (xs @ ys) = callbacks xs @ callbacks ys"
  by (simp add: callbacks_def)

lemma tests_append [simp]: "tests (xs @ ys) = tests xs @ tests ys"
  by (simp add: tests_def)

lemma arnoldi_step_events:
  "arnoldi_step c (V, H, tr) j = (V', H', tr')
     \<Longrightarrow> callbacks tr' = callbacks tr \<and> tests tr' = tests tr"
  by (auto simp: arnoldi_step_def Let_def callbacks_def tests_def)

lemma arnoldi_step_trace:
  "arnoldi_step c (V, H, tr) j
     = (case arnoldi_step c (V, H, []) j of (V', H', ev) \<Rightarrow> (V', H', tr @ ev))"
  by (simp add: arnoldi_step_def Let_def)

lemma arnoldi_events:
  "foldl (arnoldi_step c) (V, H, tr) js = (V', H', tr')
     \<Longrightarrow> callbacks tr' = callbacks tr \<and> tests tr' = tests tr"
proof (induction js arbitrary: V H tr)
  case Nil
  then show ?case by simp
next
  case (Cons j js)
  obtain V1 H1 tr1 where s: "arnoldi_step c (V, H, tr) j = (V1, H1, tr1)"
    by (cases "arnoldi_step c (V, H, tr) j") auto
  from Cons.prems s have "foldl (arnoldi_step c) (V1, H1, tr1) js = (V', H', tr')" by simp
  from Cons.IH [OF this] arnoldi_step_events [OF s] show ?case by simp
qed

lemma arnoldi_trace:
  "foldl (arnoldi_step c) (V, H, tr) js
     = (case foldl (arnoldi_step c) (V, H, []) js of (V', H', ev) \<Rightarrow> (V', H', tr @ ev))"
proof (induction js arbitrary: V H tr)
  case Nil
  then show ?case by simp
next
  case (Cons j js)
  obtain V1 H1 e1 where s: "arnoldi_step c (V, H, []) j = (V1, H1, e1)"
    by (cases "arnoldi_step c (V, H, []) j") auto
  then have s': "arnoldi_step c (V, H, tr) j = (V1, H1, tr @ e1)"
    by (simp add: arnoldi_step_trace [of c V H tr j])
  obtain V2 H2 e2 where f: "foldl (arnoldi_step c) (V1, H1, []) js = (V2, H2, e2)"
    by (cases "foldl (arnoldi_step c) (V1, H1, []) js") auto
  show ?case
    by (simp add: s s' Cons.IH [of V1 H1 "tr @ e1"] Cons.IH [of V1 H1 e1] f)
qed

lemma gmres_cycle_fst: "fst (gmres_cycle c x r rn tr) = fst (gmres_cycle c x r rn [])"
  unfolding gmres_cycle_def Let_def
  by (subst arnoldi_trace) (simp split: prod.splits)

lemma gmres_cycle_events:
  "callbacks (snd (gmres_cycle c x r rn tr)) = callbacks tr
   \<and> tests (snd (gmres_cycle c x r rn tr)) = tests tr"
proof -
  obtain V H tr' where
    f: "foldl (arnoldi_step c)
          ([map (\<lambda>a. a / complex_of_real rn) r], [], tr) [0..<l_restart c] = (V, H, tr')"
    by (cases "foldl (arnoldi_step c)
          ([map (\<lambda>a. a / complex_of_real rn) r], [], tr) [0..<l_restart c]") auto
  then have "snd (gmres_cycle c x r rn tr) = tr'"
    by (simp add: gmres_cycle_def Let_def)
  with arnoldi_events [OF f] show ?thesis by simp
qed

lemma gmres_cycle_next:
  "fst (gmres_cycle c x (vsub (l_b c) (l_matvec c (l_psolve c x)))
          (norm2 (vsub (l_b c) (l_matvec c (l_psolve c x)))) tr) = gmres_next c x"
  by (simp add: gmres_next_def Let_def gmres_cycle_fst [of c x _ _ tr])

lemma check_callbacks_events [simp]:
  "callbacks (check_callbacks c i x) = check_callbacks c i x"
  "tests (check_callbacks c i x) = []"
  by (simp_all add: check_callbacks_def callbacks_def tests_def Let_def)

text \<open>The trace after the termination check on the state \<open>st\<close>.\<close>

lemma gmres_loop_unfold:
  "gmres_loop c st =
     (let mx = l_psolve c (g_x st);
          rn = norm2 (vsub (l_b c) (l_matvec c mx));
          tr = g_trace st @ [Psolve (g_x st), Matvec mx]
               @ check_callbacks c (g_iters st) (g_x st) @ [Resid_test rn (l_atol c)]
      in if rn \<le> l_atol c \<or> l_maxiter c \<le> g_iters st then
           Inr \<lparr>f_mx = mx, f_r_norm = rn, f_iters = g_iters st, f_trace = tr\<rparr>
         else if l_restart c = 0 then
           Inl (IndexError ''index 0 is out of bounds for axis 1 with size 0'', tr)
         else
           gmres_loop c \<lparr>g_x = gmres_next c (g_x st),
                         g_iters = g_iters st + int (l_restart c),
                         g_trace = snd (gmres_cycle c (g_x st)
                                          (vsub (l_b c) (l_matvec c mx)) rn tr)\<rparr>)"
  by (subst gmres_loop.simps) (simp add: Let_def check_callbacks_def gmres_cycle_next)

lemma upt_0_Suc_shift: "[0..<Suc T] = 0 # map Suc [0..<T]"
  by (simp add: upt_conv_Cons map_Suc_upt del: upt_Suc)

lemma gmres_loop_run:
  "\<exists>T\<ge>1.
      callbacks (trace_of (gmres_loop c st))
        = callbacks (g_trace st)
          @ concat (map (\<lambda>k. check_callbacks c (g_iters st + int k * int (l_restart c))
                               ((gmres_next c ^^ k) (g_x st))) [0..<T])
    \<and> length (tests (trace_of (gmres_loop c st))) = length (tests (g_trace st)) + T
    \<and> (l_restart c = 0 \<longrightarrow> T = 1)
    \<and> (\<forall>fin. gmres_loop c st = Inr fin \<longrightarrow>
          f_mx fin = l_psolve c ((gmres_next c ^^ (T - 1)) (g_x st))
        \<and> f_iters fin = g_iters st + int (T - 1) * int (l_restart c)
        \<and> f_r_norm fin = norm2 (vsub (l_b c) (l_matvec c (f_mx fin)))
        \<and> (f_r_norm fin \<le> l_atol c \<or> l_maxiter c \<le> f_iters fin))"
proof (induction c st rule: gmres_loop.induct)
  case (1 c st)
  let ?mx = "l_psolve c (g_x st)"
  let ?r = "vsub (l_b c) (l_matvec c ?mx)"
  let ?rn = "norm2 ?r"
  let ?tr = "g_trace st @ [Psolve (g_x st), Matvec ?mx]
               @ check_callbacks c (g_iters st) (g_x st) @ [Resid_test ?rn (l_atol c)]"
  have cb_tr: "callbacks ?tr = callbacks (g_trace st) @ check_callbacks c (g_iters st) (g_x st)"
    by (simp add: callbacks_def) (simp add: callbacks_def [symmetric])
  have ts_tr: "length (tests ?tr) = length (tests (g_trace st)) + 1"
    by (simp add: tests_def) (simp add: tests_def [symmetric])
  show ?case
  proof (cases "?rn \<le> l_atol c \<or> l_maxiter c \<le> g_iters st")
    case True
    then have e: "gmres_loop c st
        = Inr \<lparr>f_mx = ?mx, f_r_norm = ?rn, f_iters = g_iters st, f_trace = ?tr\<rparr>"
      by (subst gmres_loop_unfold) (simp add: Let_def)
    show ?thesis
      unfolding e using cb_tr ts_tr True
      by (intro exI [of _ 1]) (simp add: trace_of_def)
  next
    case go: False
    show ?thesis
    proof (cases "l_restart c = 0")
      case True
      then have e: "gmres_loop c st
          = Inl (IndexError ''index 0 is out of bounds for axis 1 with size 0'', ?tr)"
        using go by (subst gmres_loop_unfold) (simp add: Let_def)
      show ?thesis
        unfolding e using cb_tr ts_tr
        by (intro exI [of _ 1]) (simp add: trace_of_def)
    next
      case False
      let ?st' = "\<lparr>g_x = gmres_next c (g_x st), g_iters = g_iters st + int (l_restart c),
                    g_trace = snd (gmres_cycle c (g_x st) ?r ?rn ?tr)\<rparr>"
      have e: "gmres_loop c st = gmres_loop c ?st'"
        using go False by (subst gmres_loop_unfold) (simp add: Let_def)
      have ih: "\<exists>T\<ge>1.
          callbacks (trace_of (gmres_loop c ?st'))
            = callbacks (g_trace ?st')
              @ concat (map (\<lambda>k. check_callbacks c (g_iters ?st' + int k * int (l_restart c))
                                   ((gmres_next c ^^ k) (g_x ?st'))) [0..<T])
        \<and> length (tests (trace_of (gmres_loop c ?st'))) = length (tests (g_trace ?st')) + T
        \<and> (l_restart c = 0 \<longrightarrow> T = 1)
        \<and> (\<forall>fin. gmres_loop c ?st' = Inr fin \<longrightarrow>
              f_mx fin = l_psolve c ((gmres_next c ^^ (T - 1)) (g_x ?st'))
            \<and> f_iters fin = g_iters ?st' + int (T - 1) * int (l_restart c)
            \<and> f_r_norm fin = norm2 (vsub (l_b c) (l_matvec c (f_mx fin)))
            \<and> (f_r_norm fin \<le> l_atol c \<or> l_maxiter c \<le> f_iters fin))"
        using "1.IH" [OF refl refl refl refl go False]
        by (simp only: gmres_cycle_next check_callbacks_def [symmetric, unfolded Let_def])
      then obtain T where T: "T \<ge> 1"
        "callbacks (trace_of (gmres_loop c ?st'))
            = callbacks (g_trace ?st')
              @ concat (map (\<lambda>k. check_callbacks c (g_iters ?st' + int k * int (l_restart c))
                                   ((gmres_next c ^^ k) (g_x ?st'))) [0..<T])"
        "length (tests (trace_of (gmres_loop c ?st'))) = length (tests (g_trace ?st')) + T"
        "\<forall>fin. gmres_loop c ?st' = Inr fin \<longrightarrow>
              f_mx fin = l_psolve c ((gmres_next c ^^ (T - 1)) (g_x ?st'))
            \<and> f_iters fin = g_iters ?st' + int (T - 1) * int (l_restart c)
            \<and> f_r_norm fin = norm2 (vsub (l_b c) (l_matvec c (f_mx fin)))
            \<and> (f_r_norm fin \<le> l_atol c \<or> l_maxiter c \<le> f_iters fin)"
        by blast
      have ev: "callbacks (g_trace ?st') = callbacks ?tr" "tests (g_trace ?st') = tests ?tr"
        using gmres_cycle_events [of c "g_x st" ?r ?rn ?tr] by simp_all
      have shift: "\<And>k. check_callbacks c (g_iters ?st' + int k * int (l_restart c))
                          ((gmres_next c ^^ k) (g_x ?st'))
                   = check_callbacks c (g_iters st + int (Suc k) * int (l_restart c))
                          ((gmres_next c ^^ Suc k) (g_x st))"
        by (simp add: funpow_swap1 algebra_simps)
      have 1: "callbacks (trace_of (gmres_loop c st))
        = callbacks (g_trace st)
          @ concat (map (\<lambda>k. check_callbacks c (g_iters st + int k * int (l_restart c))
                               ((gmres_next c ^^ k) (g_x st))) [0..<Suc T])"
        unfolding e T(2) ev(1) cb_tr shift upt_0_Suc_shift [of T]
        by (simp add: comp_def)
      have 2: "length (tests (trace_of (gmres_loop c st)))
                 = length (tests (g_trace st)) + Suc T"
        unfolding e T(3) ev(2) ts_tr by simp
      have 3: "\<forall>fin. gmres_loop c st = Inr fin \<longrightarrow>
              f_mx fin = l_psolve c ((gmres_next c ^^ (Suc T - 1)) (g_x st))
            \<and> f_iters fin = g_iters st + int (Suc T - 1) * int (l_restart c)
            \<and> f_r_norm fin = norm2 (vsub (l_b c) (l_matvec c (f_mx fin)))
            \<and> (f_r_norm fin \<le> l_atol c \<or> l_maxiter c \<le> f_iters fin)"
      proof (intro allI impI)
        fix fin assume "gmres_loop c st = Inr fin"
        then have f: "gmres_loop c ?st' = Inr fin" using e by simp
        obtain T' where T': "T = Suc T'" using T(1) by (cases T) auto
        from T(4) f have
          "f_mx fin = l_psolve c ((gmres_next c ^^ (T - 1)) (g_x ?st'))"
          "f_iters fin = g_iters ?st' + int (T - 1) * int (l_restart c)"
          "f_r_norm fin = norm2 (vsub (l_b c) (l_matvec c (f_mx fin)))"
          "f_r_norm fin \<le> l_atol c \<or> l_maxiter c \<le> f_iters fin"
          by blast+
        then show "f_mx fin = l_psolve c ((gmres_next c ^^ (Suc T - 1)) (g_x st))
            \<and> f_iters fin = g_iters st + int (Suc T - 1) * int (l_restart c)
            \<and> f_r_norm fin = norm2 (vsub (l_b c) (l_matvec c (f_mx fin)))
            \<and> (f_r_norm fin \<le> l_atol c \<or> l_maxiter c \<le> f_iters fin)"
          by (simp add: T' funpow_swap1 algebra_simps)
      qed
      have 0: "Suc T \<ge> 1" by simp
      have 4: "l_restart c = 0 \<longrightarrow> Suc T = 1" using False by simp
      show ?thesis
        apply (rule exI [of _ "Suc T"])
        apply (intro conjI)
            apply (rule 0)
           apply (rule 1)
          apply (rule 2)
         apply (rule 4)
        apply (rule 3)
        done
    qed
  qed
qed

text \<open>
  Runs of \<open>gmres\<close> on the 2 by 2 identity with \<open>b = (1, 0)\<close> and \<open>maxiter = 0\<close>: the
  first termination check ends the loop.
\<close>

lemma gmres_eye2_run:
  "gmres lstsq eye2 unit2 None (1 / 100000) None (Some 0) None True None (Some ''x'')
     = (Inr ([0, 0], 0),
        [Psolve [0, 0], Matvec [0, 0], Callback_x [0, 0], Resid_test 1 (1 / 100000)])"
proof -
  have v: "valid_system eye2 2 unit2 None None"
    by (simp add: valid_system_def eye2_def dense_def array1_def unit2_def)
  have b: "rhs_of eye2 unit2 = [1, 0]"
    by (simp add: rhs_of_def ravel_astype cast_def unit2_def array1_def eye2_def dense_def)
  have n: "norm2 [1, 0] = 1" by (simp add: norm2_def)
  have nz: "norm2 (rhs_of eye2 unit2) \<noteq> 0" by (simp add: b n)
  have A: "matmul eye2 [0, 0] = [0, 0]"
    by (simp add: eye2_def dense_def)
  show ?thesis
    unfolding gmres_valid [OF v nz, of "Some ''x''", unfolded valid_callback_type_def, simplified]
    apply (simp add: gmres_iterate_def locals_of_def restart_of_def b n budget_of_def
        guess_of_def zeros_def numeral_2_eq_2 eff_tol_def callback_type_of_def)
    apply (subst gmres_loop.simps)
    apply (simp add: Let_def psolve_of_def A vsub_def n)
    done
qed

lemma gmres_twice2_run:
  "gmres lstsq eye2 unit2 (Some unit2) (1 / 100000) None (Some 0) (Some twice2) False None None
     = (Inr ([2, 0], 0), [Psolve [1, 0], Matvec [2, 0], Resid_test 1 (1 / 100000)])"
proof -
  have v: "valid_system eye2 2 unit2 (Some unit2) (Some twice2)"
    by (simp add: valid_system_def eye2_def twice2_def dense_def array1_def unit2_def)
  have b: "rhs_of eye2 unit2 = [1, 0]"
    by (simp add: rhs_of_def ravel_astype cast_def unit2_def array1_def eye2_def dense_def)
  have x: "guess_of eye2 2 (Some unit2) = [1, 0]"
    by (simp add: guess_of_def ravel_astype cast_def unit2_def array1_def eye2_def dense_def)
  have n: "norm2 [1, 0] = 1" "norm2 [- 1, 0] = 1" by (simp_all add: norm2_def)
  have nz: "norm2 (rhs_of eye2 unit2) \<noteq> 0" by (simp add: b n)
  have A: "matmul eye2 [2, 0] = [2, 0]" "matmul twice2 [1, 0] = [2, 0]"
    by (simp_all add: eye2_def twice2_def dense_def)
  show ?thesis
    unfolding gmres_valid [OF v nz, of None, unfolded valid_callback_type_def, simplified]
    apply (simp add: gmres_iterate_def locals_of_def restart_of_def b x n budget_of_def
        eff_tol_def callback_type_of_def)
    apply (subst gmres_loop.simps)
    apply (simp add: Let_def psolve_of_def A vsub_def n)
    done
qed

lemma test_in_tests: "Resid_test rr t \<in> set tr \<longleftrightarrow> Resid_test rr t \<in> set (tests tr)"
  by (simp add: tests_def)

lemma gmres_loop_tests:
  "Resid_test rr t \<in> set (trace_of (gmres_loop c st))
     \<Longrightarrow> Resid_test rr t \<in> set (g_trace st) \<or> t = l_atol c"
proof (induction c st rule: gmres_loop.induct)
  case (1 c st)
  let ?mx = "l_psolve c (g_x st)"
  let ?r = "vsub (l_b c) (l_matvec c ?mx)"
  let ?rn = "norm2 ?r"
  let ?tr = "g_trace st @ [Psolve (g_x st), Matvec ?mx]
               @ check_callbacks c (g_iters st) (g_x st) @ [Resid_test ?rn (l_atol c)]"
  have ts: "tests ?tr = tests (g_trace st) @ [Resid_test ?rn (l_atol c)]"
    by (simp add: tests_def) (simp add: tests_def [symmetric])
  have here: "Resid_test rr t \<in> set ?tr \<Longrightarrow> Resid_test rr t \<in> set (g_trace st) \<or> t = l_atol c"
    unfolding test_in_tests [of rr t ?tr] ts test_in_tests [of rr t "g_trace st"] by auto
  show ?case
  proof (cases "?rn \<le> l_atol c \<or> l_maxiter c \<le> g_iters st")
    case True
    then have e: "gmres_loop c st
        = Inr \<lparr>f_mx = ?mx, f_r_norm = ?rn, f_iters = g_iters st, f_trace = ?tr\<rparr>"
      by (subst gmres_loop_unfold) (simp add: Let_def)
    from "1.prems" show ?thesis
      unfolding e by (intro here) (simp add: trace_of_def)
  next
    case go: False
    show ?thesis
    proof (cases "l_restart c = 0")
      case True
      then have e: "gmres_loop c st
          = Inl (IndexError ''index 0 is out of bounds for axis 1 with size 0'', ?tr)"
        using go by (subst gmres_loop_unfold) (simp add: Let_def)
      from "1.prems" show ?thesis
        unfolding e by (intro here) (simp add: trace_of_def)
    next
      case False
      let ?st' = "\<lparr>g_x = gmres_next c (g_x st), g_iters = g_iters st + int (l_restart c),
                    g_trace = snd (gmres_cycle c (g_x st) ?r ?rn ?tr)\<rparr>"
      have e: "gmres_loop c st = gmres_loop c ?st'"
        using go False by (subst gmres_loop_unfold) (simp add: Let_def)
      have ih: "Resid_test rr t \<in> set (trace_of (gmres_loop c ?st'))
                  \<Longrightarrow> Resid_test rr t \<in> set (g_trace ?st') \<or> t = l_atol c"
        using "1.IH" [OF refl refl refl refl go False]
        by (simp only: gmres_cycle_next check_callbacks_def [symmetric, unfolded Let_def])
      have ev: "tests (g_trace ?st') = tests ?tr"
        using gmres_cycle_events [of c "g_x st" ?r ?rn ?tr] by simp
      from "1.prems" have "Resid_test rr t \<in> set (g_trace ?st') \<or> t = l_atol c"
        unfolding e by (rule ih)
      then have "Resid_test rr t \<in> set ?tr \<or> t = l_atol c"
        unfolding test_in_tests [of rr t "g_trace ?st'"] ev test_in_tests [of rr t ?tr] .
      with here show ?thesis by blast
    qed
  qed
qed

lemma gmres_iterate_trace:
  "snd (gmres_iterate c restart x)
     = (if restart < 0 then []
        else trace_of (gmres_loop (c\<lparr>l_restart := nat restart\<rparr>)
                         \<lparr>g_x = x, g_iters = 0, g_trace = []\<rparr>))"
  by (simp add: gmres_iterate_def trace_of_def split: sum.splits prod.splits)

lemma cg_events_tests:
  "Resid_test rr t \<in> set (concat (map (cg_events A M b x0 cb atol) ks)) \<Longrightarrow> t = atol"
  by (induction ks) (auto simp: cg_events_def split: if_splits)

subsection \<open>The effective tolerance\<close>

text \<open>
  C2. In a run of \<open>cg\<close> and in a run of \<open>gmres\<close>, every residual test
  \<open>residual norm \<le> tolerance\<close> compares with the effective tolerance of the specification:
  \<open>tol\<close> when \<open>atol\<close> is unspecified and the norm of \<open>b\<close> is 0, \<open>tol\<close> times the norm of
  \<open>b\<close> when \<open>atol\<close> is unspecified and the norm is not 0, and the maximum of \<open>atol\<close> and
  \<open>tol\<close> times the norm of \<open>b\<close> when \<open>atol\<close> is given. (A run of \<open>gmres\<close> on a \<open>b\<close> of
  norm 0 performs no residual test.)
\<close>

theorem effective_tolerance:
  "(Resid_test rr t \<in> set (snd (cg A b x0 tol maxiter M callback atol))
      \<longrightarrow> t = eff_tol atol tol (norm2 (rhs_of A b)))
 \<and> (Resid_test rr t \<in> set (snd (gmres lstsq A b x0 tol restart maxiter M callback atol
                                    callback_type))
      \<longrightarrow> t = eff_tol atol tol (norm2 (rhs_of A b)))"
proof (intro conjI impI)
  assume a: "Resid_test rr t \<in> set (snd (cg A b x0 tol maxiter M callback atol))"
  then have "snd (cg A b x0 tol maxiter M callback atol) \<noteq> []" by auto
  then have v: "valid_system A (op_shape A ! 0) b x0 M"
    using cg_trace_invalid [of A b x0 tol maxiter M callback atol] by simp
  let ?n = "op_shape A ! 0"
  from cg_iterate_run [of "matmul A" "psolve_of M" callback "rhs_of A b"
      "eff_tol atol tol (norm2 (rhs_of A b))" "budget_of ?n maxiter" "guess_of A ?n x0"]
  obtain K where "snd (cg A b x0 tol maxiter M callback atol)
      = Matvec (guess_of A ?n x0)
        # concat (map (cg_events (matmul A) (psolve_of M) (rhs_of A b) (guess_of A ?n x0)
                     callback (eff_tol atol tol (norm2 (rhs_of A b)))) [0..<K])"
    unfolding cg_valid [OF v] by blast
  with a have "Resid_test rr t
      \<in> set (concat (map (cg_events (matmul A) (psolve_of M) (rhs_of A b) (guess_of A ?n x0)
                     callback (eff_tol atol tol (norm2 (rhs_of A b)))) [0..<K]))"
    by (simp del: set_concat)
  then show "t = eff_tol atol tol (norm2 (rhs_of A b))"
    by (rule cg_events_tests)
next
  let ?g = "gmres lstsq A b x0 tol restart maxiter M callback atol callback_type"
  assume a: "Resid_test rr t \<in> set (snd ?g)"
  then have "snd ?g \<noteq> []" by auto
  then have v: "valid_system A (op_shape A ! 0) b x0 M" "norm2 (rhs_of A b) \<noteq> 0"
      "valid_callback_type callback_type"
    using gmres_trace_invalid [of lstsq A b x0 tol restart maxiter M callback atol
        callback_type] by simp_all
  let ?n = "op_shape A ! 0"
  let ?c = "locals_of lstsq A ?n b tol restart maxiter M callback atol callback_type"
  note g = gmres_valid [OF v, of lstsq tol restart maxiter callback atol]
  from a have "Resid_test rr t \<in> set (trace_of (gmres_loop
        (?c\<lparr>l_restart := 0, l_restart := nat (restart_of ?n restart)\<rparr>)
        \<lparr>g_x = guess_of A ?n x0, g_iters = 0, g_trace = []\<rparr>))"
    unfolding g gmres_iterate_trace by (auto split: if_splits)
  from gmres_loop_tests [OF this] show "t = eff_tol atol tol (norm2 (rhs_of A b))"
    by (simp add: locals_of_def)
qed

theorem effective_tolerance_witness:
  "Resid_test 0 (1 / 100000)
     \<in> set (snd (cg eye2 unit2 None (1 / 100000) None None True None))
   \<and> Resid_test 1 (1 / 100000)
     \<in> set (snd (gmres (\<lambda>H e. []) eye2 unit2 None (1 / 100000) None (Some 0) None True None
                     (Some ''x'')))
   \<and> 1 / 100000 = eff_tol None (1 / 100000) (norm2 (rhs_of eye2 unit2))"
  using effective_tolerance [of 0 "1 / 100000" eye2 unit2 None "1 / 100000" None None True None]
    effective_tolerance [of 1 "1 / 100000" eye2 unit2 None "1 / 100000" "Some 0" None True None
      "\<lambda>H e. []" None "Some ''x''"]
  by (simp add: cg_eye2_run gmres_eye2_run)

subsection \<open>Runs of \<open>gmres\<close> on valid input\<close>

lemma locals_restart:
  "(locals_of lstsq A n b tol restart maxiter M callback atol callback_type)
     \<lparr>l_restart := 0, l_restart := nat (restart_of n restart)\<rparr>
   = locals_of lstsq A n b tol restart maxiter M callback atol callback_type"
  by (simp add: locals_of_def)

lemma gmres_run:
  assumes "valid_system A n b x0 M" and "norm2 (rhs_of A b) \<noteq> 0"
    and "valid_callback_type callback_type"
  shows "callbacks (snd (gmres lstsq A b x0 tol restart maxiter M callback atol callback_type))
      = concat (map (\<lambda>k. check_callbacks
                  (locals_of lstsq A n b tol restart maxiter M callback atol callback_type)
                  (int k * int (l_restart
                     (locals_of lstsq A n b tol restart maxiter M callback atol callback_type)))
                  ((gmres_next
                     (locals_of lstsq A n b tol restart maxiter M callback atol callback_type)
                     ^^ k) (guess_of A n x0)))
          [0..<length (tests (snd (gmres lstsq A b x0 tol restart maxiter M callback atol
                                     callback_type)))])"
    and "1 < length (tests (snd (gmres lstsq A b x0 tol restart maxiter M callback atol
                                   callback_type)))
         \<Longrightarrow> 0 < l_restart
               (locals_of lstsq A n b tol restart maxiter M callback atol callback_type)"
    and "fst (gmres lstsq A b x0 tol restart maxiter M callback atol callback_type)
           = Inr (sol, info)
         \<Longrightarrow> sol = psolve_of M
               ((gmres_next
                   (locals_of lstsq A n b tol restart maxiter M callback atol callback_type)
                 ^^ (length (tests (snd (gmres lstsq A b x0 tol restart maxiter M callback atol
                                          callback_type))) - 1)) (guess_of A n x0))"
proof -
  let ?c = "locals_of lstsq A n b tol restart maxiter M callback atol callback_type"
  let ?g = "gmres lstsq A b x0 tol restart maxiter M callback atol callback_type"
  let ?st = "\<lparr>g_x = guess_of A n x0, g_iters = 0, g_trace = []\<rparr>"
  note g = gmres_valid [OF assms, of lstsq tol restart maxiter callback atol]
  have tr: "snd ?g = (if restart_of n restart < 0 then [] else trace_of (gmres_loop ?c ?st))"
    unfolding g gmres_iterate_trace locals_restart ..
  have res: "fst ?g = Inr (sol, info) \<Longrightarrow>
      \<not> restart_of n restart < 0 \<and> (\<exists>fin. gmres_loop ?c ?st = Inr fin \<and> sol = f_mx fin)"
    for sol info
    unfolding g gmres_iterate_def locals_restart
    by (auto split: if_splits sum.splits prod.splits)
  from gmres_loop_run [of ?c ?st]
  obtain T where T: "T \<ge> 1"
    "callbacks (trace_of (gmres_loop ?c ?st))
       = concat (map (\<lambda>k. check_callbacks ?c (int k * int (l_restart ?c))
                            ((gmres_next ?c ^^ k) (guess_of A n x0))) [0..<T])"
    "length (tests (trace_of (gmres_loop ?c ?st))) = T"
    "l_restart ?c = 0 \<longrightarrow> T = 1"
    "\<forall>fin. gmres_loop ?c ?st = Inr fin \<longrightarrow>
        f_mx fin = l_psolve ?c ((gmres_next ?c ^^ (T - 1)) (guess_of A n x0))"
    by (auto simp: callbacks_def tests_def)
  have ps: "l_psolve ?c = psolve_of M" by (simp add: locals_of_def)
  show "callbacks (snd ?g)
      = concat (map (\<lambda>k. check_callbacks ?c (int k * int (l_restart ?c))
                            ((gmres_next ?c ^^ k) (guess_of A n x0)))
          [0..<length (tests (snd ?g))])"
    using T(2,3) by (simp add: tr callbacks_def tests_def)
  show "0 < l_restart ?c" if "1 < length (tests (snd ?g))"
    using that T(3,4) by (auto simp: tr tests_def split: if_splits)
  show "sol = psolve_of M ((gmres_next ?c ^^ (length (tests (snd ?g)) - 1)) (guess_of A n x0))"
    if "fst ?g = Inr (sol, info)"
  proof -
    from res [OF that] obtain fin where
      f: "\<not> restart_of n restart < 0" "gmres_loop ?c ?st = Inr fin" "sol = f_mx fin"
      by blast
    from f(1) T(3) have "length (tests (snd ?g)) = T" by (simp add: tr)
    with T(5) f(2,3) ps show ?thesis by simp
  qed
qed

subsection \<open>The returned solution of \<open>gmres\<close>\<close>

text \<open>
  C4. When \<open>gmres\<close> returns after at least one termination check, the returned solution is
  the preconditioned point \<open>mx = M x\<close> of the last check (the identity is applied when \<open>M\<close>
  is unspecified), where \<open>x\<close> is the internal iterate at that check: the initial guess
  advanced by one restart cycle for every earlier check.
\<close>

theorem gmres_returns_mx:
  assumes "valid_system A n b x0 M"
    and "fst (gmres lstsq A b x0 tol restart maxiter M callback atol callback_type)
           = Inr (sol, info)"
    and "tests (snd (gmres lstsq A b x0 tol restart maxiter M callback atol callback_type))
           \<noteq> []"
  shows "sol = psolve_of M
           ((gmres_next
               (locals_of lstsq A n b tol restart maxiter M callback atol callback_type)
             ^^ (length (tests (snd (gmres lstsq A b x0 tol restart maxiter M callback atol
                                      callback_type))) - 1)) (guess_of A n x0))"
proof -
  from assms(3)
  have "snd (gmres lstsq A b x0 tol restart maxiter M callback atol callback_type) \<noteq> []"
    by (auto simp: tests_def)
  then have v: "norm2 (rhs_of A b) \<noteq> 0" "valid_callback_type callback_type"
    using gmres_trace_invalid [of lstsq A b x0 tol restart maxiter M callback atol
        callback_type] by simp_all
  from gmres_run(3) [OF assms(1) v assms(2)] show ?thesis .
qed

theorem gmres_returns_mx_witness:
  "valid_system eye2 2 unit2 (Some unit2) (Some twice2)
   \<and> fst (gmres (\<lambda>H e. []) eye2 unit2 (Some unit2) (1 / 100000) None (Some 0) (Some twice2)
            False None None) = Inr ([2, 0], 0)
   \<and> [2, 0] = psolve_of (Some twice2) (guess_of eye2 2 (Some unit2))
   \<and> guess_of eye2 2 (Some unit2) = [1, 0]"
proof -
  have v: "valid_system eye2 2 unit2 (Some unit2) (Some twice2)"
    by (simp add: valid_system_def eye2_def twice2_def dense_def array1_def unit2_def)
  have r: "fst (gmres (\<lambda>H e. []) eye2 unit2 (Some unit2) (1 / 100000) None (Some 0)
             (Some twice2) False None None) = Inr ([2, 0], 0)"
    by (simp add: gmres_twice2_run)
  have t: "tests (snd (gmres (\<lambda>H e. []) eye2 unit2 (Some unit2) (1 / 100000) None (Some 0)
             (Some twice2) False None None)) \<noteq> []"
    by (simp add: gmres_twice2_run tests_def)
  have x: "guess_of eye2 2 (Some unit2) = [1, 0]"
    by (simp add: guess_of_def ravel_astype cast_def unit2_def array1_def eye2_def dense_def)
  from gmres_returns_mx [OF v r t]
  have "[2, 0] = psolve_of (Some twice2) (guess_of eye2 2 (Some unit2))"
    by (simp add: gmres_twice2_run tests_def)
  with v r x show ?thesis by simp
qed

subsection \<open>Callback invocations\<close>

lemma cg_events_callbacks:
  "callbacks (concat (map (cg_events A M b x0 cb atol) ks))
     = (if cb then map (\<lambda>k. Callback_x (spec_x A M b x0 (Suc k))) ks else [])"
  by (induction ks) (simp_all add: cg_events_def callbacks_def)

lemma cg_events_count:
  "length (tests (concat (map (cg_events A M b x0 cb atol) ks))) = length ks"
  by (induction ks) (simp_all add: cg_events_def tests_def)

lemma concat_skip_first:
  "concat (map (\<lambda>k. if 0 < k then [g k] else []) [0..<T]) = map g [1..<T]"
  by (induction T) auto

lemma gmres_callbacks_x:
  assumes "l_callback_type c = Some ''x''"
  shows "concat (map (\<lambda>k. check_callbacks c (i k) (f k)) ks)
           = map (\<lambda>k. Callback_x (l_psolve c (f k))) ks"
  using assms by (induction ks) (simp_all add: check_callbacks_def Let_def)

lemma gmres_callbacks_none:
  assumes "l_callback_type c = None"
  shows "concat (map (\<lambda>k. check_callbacks c (i k) (f k)) ks) = []"
  using assms by (induction ks) (simp_all add: check_callbacks_def Let_def)

lemma gmres_callbacks_pr_norm:
  assumes "l_callback_type c = Some ''pr_norm''" and "1 < T \<Longrightarrow> 0 < r"
  shows "concat (map (\<lambda>k. check_callbacks c (int k * int r) (f k)) [0..<T])
           = map (\<lambda>k. Callback_pr_norm
                         (norm2 (vsub (l_b c) (l_matvec c (l_psolve c (f k)))) / l_b_norm c))
               [1..<T]"
proof (cases "1 < T")
  case True
  with assms(2) have r: "0 < r" by simp
  have "(\<lambda>k. check_callbacks c (int k * int r) (f k))
          = (\<lambda>k. if 0 < k then [Callback_pr_norm
                         (norm2 (vsub (l_b c) (l_matvec c (l_psolve c (f k)))) / l_b_norm c)]
                  else [])"
    using assms(1) r by (auto simp: check_callbacks_def Let_def fun_eq_iff zero_less_mult_iff)
  then show ?thesis by (simp only: concat_skip_first)
next
  case False
  then have "T = 0 \<or> T = 1" by auto
  then show ?thesis
    using assms(1) by (auto simp: check_callbacks_def Let_def)
qed

lemma locals_of_sel:
  "l_psolve (locals_of lstsq A n b tol restart maxiter M callback atol callback_type)
     = psolve_of M"
  "l_matvec (locals_of lstsq A n b tol restart maxiter M callback atol callback_type)
     = matmul A"
  "l_b (locals_of lstsq A n b tol restart maxiter M callback atol callback_type) = rhs_of A b"
  "l_b_norm (locals_of lstsq A n b tol restart maxiter M callback atol callback_type)
     = norm2 (rhs_of A b)"
  by (simp_all add: locals_of_def)

text \<open>
  C8. With a callback, \<open>cg\<close> calls it once per completed iteration (as many calls as
  residual tests), the \<open>k\<close>-th call with the iterate after \<open>k\<close> iterations; without one, no
  call is made. \<open>gmres\<close> calls it at the termination checks, one per restart-cycle
  boundary: with \<open>callback_type = ''x''\<close> at every check (the first included), with
  \<open>mx = M x\<close> of that check; otherwise (\<open>''pr_norm''\<close>, also the default) at every check but
  the first, with the residual norm of that check divided by the norm of \<open>b\<close>.
\<close>

theorem callback_invocations:
  assumes "valid_system A n b x0 M"
  shows "callbacks (snd (cg A b x0 tol maxiter M callback atol))
           = (if callback
              then map (\<lambda>k. Callback_x (spec_x (matmul A) (psolve_of M) (rhs_of A b)
                                           (guess_of A n x0) (Suc k)))
                     [0..<length (tests (snd (cg A b x0 tol maxiter M callback atol)))]
              else [])
       \<and> (norm2 (rhs_of A b) \<noteq> 0 \<and> valid_callback_type callback_type \<longrightarrow>
           callbacks (snd (gmres lstsq A b x0 tol restart maxiter M callback atol callback_type))
             = (let c = locals_of lstsq A n b tol restart maxiter M callback atol callback_type;
                    T = length (tests (snd (gmres lstsq A b x0 tol restart maxiter M callback
                                              atol callback_type)))
                in if \<not> callback then []
                   else if callback_type = Some ''x''
                   then map (\<lambda>k. Callback_x (psolve_of M ((gmres_next c ^^ k) (guess_of A n x0))))
                          [0..<T]
                   else map (\<lambda>k. Callback_pr_norm
                                   (norm2 (vsub (rhs_of A b)
                                      (matmul A (psolve_of M
                                         ((gmres_next c ^^ k) (guess_of A n x0)))))
                                    / norm2 (rhs_of A b)))
                          [1..<T]))"
proof (intro conjI impI)
  let ?cg = "cg A b x0 tol maxiter M callback atol"
  let ?ev = "cg_events (matmul A) (psolve_of M) (rhs_of A b) (guess_of A n x0) callback
               (eff_tol atol tol (norm2 (rhs_of A b)))"
  from cg_iterate_run [of "matmul A" "psolve_of M" callback "rhs_of A b"
      "eff_tol atol tol (norm2 (rhs_of A b))" "budget_of n maxiter" "guess_of A n x0"]
  obtain K where K: "snd ?cg = Matvec (guess_of A n x0) # concat (map ?ev [0..<K])"
    unfolding cg_valid [OF assms] by blast
  have c: "callbacks (snd ?cg) = callbacks (concat (map ?ev [0..<K]))"
    unfolding K by (simp add: callbacks_def)
  have t: "length (tests (snd ?cg)) = K"
    unfolding K using cg_events_count [of "matmul A" "psolve_of M" "rhs_of A b"
        "guess_of A n x0" callback "eff_tol atol tol (norm2 (rhs_of A b))" "[0..<K]"]
    by (simp add: tests_def)
  show "callbacks (snd ?cg)
           = (if callback
              then map (\<lambda>k. Callback_x (spec_x (matmul A) (psolve_of M) (rhs_of A b)
                                           (guess_of A n x0) (Suc k)))
                     [0..<length (tests (snd ?cg))]
              else [])"
    unfolding t c by (rule cg_events_callbacks)
next
  let ?g = "gmres lstsq A b x0 tol restart maxiter M callback atol callback_type"
  let ?c = "locals_of lstsq A n b tol restart maxiter M callback atol callback_type"
  let ?T = "length (tests (snd ?g))"
  assume a: "norm2 (rhs_of A b) \<noteq> 0 \<and> valid_callback_type callback_type"
  then have nz: "norm2 (rhs_of A b) \<noteq> 0" and vc: "valid_callback_type callback_type"
    by simp_all
  note run = gmres_run(1,2) [OF assms nz vc, of lstsq tol restart maxiter callback atol]
  have ct: "l_callback_type ?c = callback_type_of callback callback_type"
    by (simp add: locals_of_def)
  have "callbacks (snd ?g)
      = (if \<not> callback then []
         else if callback_type = Some ''x''
         then map (\<lambda>k. Callback_x (psolve_of M ((gmres_next ?c ^^ k) (guess_of A n x0))))
                [0..<?T]
         else map (\<lambda>k. Callback_pr_norm
                         (norm2 (vsub (rhs_of A b)
                            (matmul A (psolve_of M ((gmres_next ?c ^^ k) (guess_of A n x0)))))
                          / norm2 (rhs_of A b)))
                [1..<?T])"
  proof (cases callback)
    case False
    with ct have "l_callback_type ?c = None" by (simp add: callback_type_of_def)
    then have "callbacks (snd ?g) = []"
      unfolding run(1) by (rule gmres_callbacks_none)
    with False show ?thesis by simp
  next
    case cb: True
    show ?thesis
    proof (cases "callback_type = Some ''x''")
      case True
      with ct cb have "l_callback_type ?c = Some ''x''" by (simp add: callback_type_of_def)
      then have "callbacks (snd ?g)
          = map (\<lambda>k. Callback_x (l_psolve ?c ((gmres_next ?c ^^ k) (guess_of A n x0))))
              [0..<?T]"
        unfolding run(1) by (rule gmres_callbacks_x)
      with cb True show ?thesis by (simp add: locals_of_sel)
    next
      case False
      with vc have "callback_type = None \<or> callback_type = Some ''pr_norm''"
        by (simp add: valid_callback_type_def)
      with ct cb have p: "l_callback_type ?c = Some ''pr_norm''"
        by (auto simp: callback_type_of_def)
      have "callbacks (snd ?g)
          = map (\<lambda>k. Callback_pr_norm
                         (norm2 (vsub (l_b ?c) (l_matvec ?c (l_psolve ?c
                            ((gmres_next ?c ^^ k) (guess_of A n x0))))) / l_b_norm ?c))
              [1..<?T]"
        unfolding run(1) by (rule gmres_callbacks_pr_norm [OF p run(2)])
      with cb False show ?thesis by (simp add: locals_of_sel)
    qed
  qed
  then show "callbacks (snd ?g)
      = (let c = ?c; T = ?T
         in if \<not> callback then []
            else if callback_type = Some ''x''
            then map (\<lambda>k. Callback_x (psolve_of M ((gmres_next c ^^ k) (guess_of A n x0))))
                   [0..<T]
            else map (\<lambda>k. Callback_pr_norm
                            (norm2 (vsub (rhs_of A b)
                               (matmul A (psolve_of M ((gmres_next c ^^ k) (guess_of A n x0)))))
                             / norm2 (rhs_of A b)))
                   [1..<T])"
    by (simp only: Let_def)
qed

subsection \<open>A run of \<open>gmres\<close> on the cyclic shift\<close>

lemma upt_0_2: "[0..<2] = [0, Suc 0]"
  by (simp add: numeral_2_eq_2)

lemma norm2_units:
  "norm2 [1, 0, 0] = 1" "norm2 [0, 1, 0] = 1" "norm2 [0, 0, 1] = 1"
  by (simp_all add: norm2_def)

lemma shift3_apply:
  "matmul shift3 [0, 0, 0] = [0, 0, 0]" "matmul shift3 [1, 0, 0] = [0, 1, 0]"
  "matmul shift3 [0, 1, 0] = [0, 0, 1]"
  by (simp_all add: shift3_def dense_def)

lemma lstsq_shift: "lstsq_normal [[0, 1, 0], [0, 0, 1]] [1, 0, 0] = [0, 0]"
  by (simp add: lstsq_normal_def normal_equations_def dot_conj_def Let_def)

lemma shift_cycle:
  assumes "l_matvec c = matmul shift3" and "l_psolve c = psolve_of None"
    and "l_lstsq c = lstsq_normal" and "l_n c = 3" and "l_restart c = 2"
  shows "gmres_cycle c [0, 0, 0] [1, 0, 0] 1 tr
           = ([0, 0, 0],
              tr @ [Psolve [1, 0, 0], Matvec [1, 0, 0], Psolve [0, 1, 0], Matvec [0, 1, 0]])"
  by (simp add: gmres_cycle_def assms upt_0_2 arnoldi_step_def Let_def psolve_of_def
      shift3_apply dot_conj_def vsub_def vadd_def scal_def cols_matvec_def zeros_def
      norm2_units lstsq_shift numeral_3_eq_3 numeral_2_eq_2)

lemma gmres_shift_run:
  "gmres lstsq_normal shift3 unit3 None (1 / 100000) (Some 2) (Some 3) None True None None
     = (Inr ([0, 0, 0], 0),
        [Psolve [0, 0, 0], Matvec [0, 0, 0], Resid_test 1 (1 / 100000),
         Psolve [1, 0, 0], Matvec [1, 0, 0], Psolve [0, 1, 0], Matvec [0, 1, 0],
         Psolve [0, 0, 0], Matvec [0, 0, 0], Callback_pr_norm 1, Resid_test 1 (1 / 100000),
         Psolve [1, 0, 0], Matvec [1, 0, 0], Psolve [0, 1, 0], Matvec [0, 1, 0],
         Psolve [0, 0, 0], Matvec [0, 0, 0], Callback_pr_norm 1, Resid_test 1 (1 / 100000)])"
proof -
  have v: "valid_system shift3 3 unit3 None None"
    by (simp add: valid_system_def shift3_def dense_def array1_def unit3_def)
  have b: "rhs_of shift3 unit3 = [1, 0, 0]"
    by (simp add: rhs_of_def ravel_astype cast_def unit3_def array1_def shift3_def dense_def)
  have nz: "norm2 (rhs_of shift3 unit3) \<noteq> 0" by (simp add: b norm2_units)
  have g: "guess_of shift3 3 None = [0, 0, 0]"
    by (simp add: guess_of_def zeros_def numeral_3_eq_3)
  have p: "psolve_of None [0, 0, 0] = [0, 0, 0]" by (simp add: psolve_of_def)
  show ?thesis
    unfolding gmres_valid [OF v nz, of None, unfolded valid_callback_type_def, simplified]
    apply (simp add: gmres_iterate_def locals_of_def restart_of_def b g norm2_units
        budget_of_def eff_tol_def callback_type_of_def)
    apply (subst gmres_loop.simps)
    apply (simp add: Let_def p shift3_apply vsub_def norm2_units shift_cycle)
    apply (subst gmres_loop.simps)
    apply (simp add: Let_def p shift3_apply vsub_def norm2_units shift_cycle)
    apply (subst gmres_loop.simps)
    apply (simp add: Let_def p shift3_apply vsub_def norm2_units)
    done
qed

theorem callback_invocations_witness:
  "valid_system shift3 3 unit3 None None
   \<and> norm2 (rhs_of shift3 unit3) \<noteq> 0 \<and> valid_callback_type None
   \<and> callbacks (snd (gmres lstsq_normal shift3 unit3 None (1 / 100000) (Some 2) (Some 3) None
                     True None None))
       = [Callback_pr_norm 1, Callback_pr_norm 1]
   \<and> map (\<lambda>k. Callback_pr_norm
                 (norm2 (vsub (rhs_of shift3 unit3)
                    (matmul shift3 (psolve_of None
                       ((gmres_next (locals_of lstsq_normal shift3 3 unit3 (1 / 100000) (Some 2)
                                       (Some 3) None True None None) ^^ k)
                          (guess_of shift3 3 None)))))
                  / norm2 (rhs_of shift3 unit3)))
         [1..<3]
       = [Callback_pr_norm 1, Callback_pr_norm 1]
   \<and> callbacks (snd (cg shift3 unit3 None (1 / 100000) (Some 0) None True None)) = []"
proof -
  have v: "valid_system shift3 3 unit3 None None"
    by (simp add: valid_system_def shift3_def dense_def array1_def unit3_def)
  have b: "rhs_of shift3 unit3 = [1, 0, 0]"
    by (simp add: rhs_of_def ravel_astype cast_def unit3_def array1_def shift3_def dense_def)
  have nz: "norm2 (rhs_of shift3 unit3) \<noteq> 0" by (simp add: b norm2_units)
  have vc: "valid_callback_type None" by (simp add: valid_callback_type_def)
  have cb: "callbacks (snd (gmres lstsq_normal shift3 unit3 None (1 / 100000) (Some 2) (Some 3)
              None True None None)) = [Callback_pr_norm 1, Callback_pr_norm 1]"
    by (simp add: gmres_shift_run callbacks_def)
  have T: "length (tests (snd (gmres lstsq_normal shift3 unit3 None (1 / 100000) (Some 2)
              (Some 3) None True None None))) = 3"
    by (simp add: gmres_shift_run tests_def)
  have c0: "tests (snd (cg shift3 unit3 None (1 / 100000) (Some 0) None True None)) = []"
    by (simp add: cg_valid [OF v] budget_of_def cg_iterate_def cg_loop_done tests_def)
  note inst0 = callback_invocations [OF v, of "1 / 100000" "Some 0" True None None lstsq_normal
      "Some 2"]
  from inst0 have 1: "callbacks (snd (cg shift3 unit3 None (1 / 100000) (Some 0) None True None))
      = []"
    by (simp add: c0)
  note inst3 = callback_invocations [OF v, of "1 / 100000" "Some 3" True None None lstsq_normal
      "Some 2"]
  from inst3 nz vc have 3: "callbacks (snd (gmres lstsq_normal shift3 unit3 None (1 / 100000)
        (Some 2) (Some 3) None True None None))
      = map (\<lambda>k. Callback_pr_norm
                 (norm2 (vsub (rhs_of shift3 unit3)
                    (matmul shift3 (psolve_of None
                       ((gmres_next (locals_of lstsq_normal shift3 3 unit3 (1 / 100000) (Some 2)
                                       (Some 3) None True None None) ^^ k)
                          (guess_of shift3 3 None)))))
                  / norm2 (rhs_of shift3 unit3)))
         [1..<3]"
    unfolding T Let_def by simp
  from v nz vc cb 1 3 show ?thesis by simp
qed

subsection \<open>The status of \<open>gmres\<close> when the budget is overshot\<close>

text \<open>
  The least-squares solution used in the run below is a minimiser: no \<open>y\<close> gives a
  smaller residual for the Hessenberg matrix and right-hand side of the cycle.
\<close>

lemma lstsq_shift_minimal:
  "norm2 (vsub (cols_matvec 3 [[0, 1, 0], [0, 0, 1]] [0, 0]) [1, 0, 0])
     \<le> norm2 (vsub (cols_matvec 3 [[0, 1, 0], [0, 0, 1]] [y1, y2]) [1, 0, 0])"
  by (simp add: cols_matvec_def zeros_def numeral_3_eq_3 vadd_def vsub_def scal_def norm2_def)

text \<open>
  C1. The status does not always tell a run that met the tolerance from one that exhausted
  its budget. For the cyclic shift of three coordinates, \<open>b = (1, 0, 0)\<close>, \<open>restart = 2\<close>
  and \<open>maxiter = 3\<close>, the iteration count of \<open>gmres\<close> goes 0, 2, 4; every residual test
  compares the norm 1 with the tolerance \<open>10\<^sup>-\<^sup>5\<close> and fails; the loop ends at the count 4,
  which is not \<open>maxiter\<close>, and the returned status is 0.
\<close>

theorem gmres_budget_overshoot:
  "gmres lstsq_normal shift3 unit3 None (1 / 100000) (Some 2) (Some 3) None False None None
     = (Inr ([0, 0, 0], 0),
        [Psolve [0, 0, 0], Matvec [0, 0, 0], Resid_test 1 (1 / 100000),
         Psolve [1, 0, 0], Matvec [1, 0, 0], Psolve [0, 1, 0], Matvec [0, 1, 0],
         Psolve [0, 0, 0], Matvec [0, 0, 0], Resid_test 1 (1 / 100000),
         Psolve [1, 0, 0], Matvec [1, 0, 0], Psolve [0, 1, 0], Matvec [0, 1, 0],
         Psolve [0, 0, 0], Matvec [0, 0, 0], Resid_test 1 (1 / 100000)])"
proof -
  have v: "valid_system shift3 3 unit3 None None"
    by (simp add: valid_system_def shift3_def dense_def array1_def unit3_def)
  have b: "rhs_of shift3 unit3 = [1, 0, 0]"
    by (simp add: rhs_of_def ravel_astype cast_def unit3_def array1_def shift3_def dense_def)
  have nz: "norm2 (rhs_of shift3 unit3) \<noteq> 0" by (simp add: b norm2_units)
  have g: "guess_of shift3 3 None = [0, 0, 0]"
    by (simp add: guess_of_def zeros_def numeral_3_eq_3)
  have p: "psolve_of None [0, 0, 0] = [0, 0, 0]" by (simp add: psolve_of_def)
  show ?thesis
    unfolding gmres_valid [OF v nz, of None, unfolded valid_callback_type_def, simplified]
    apply (simp add: gmres_iterate_def locals_of_def restart_of_def b g norm2_units
        budget_of_def eff_tol_def callback_type_of_def)
    apply (subst gmres_loop.simps)
    apply (simp add: Let_def p shift3_apply vsub_def norm2_units shift_cycle)
    apply (subst gmres_loop.simps)
    apply (simp add: Let_def p shift3_apply vsub_def norm2_units shift_cycle)
    apply (subst gmres_loop.simps)
    apply (simp add: Let_def p shift3_apply vsub_def norm2_units)
    done
qed

theorem gmres_budget_overshoot_witness:
  "fst (gmres lstsq_normal shift3 unit3 None (1 / 100000) (Some 2) (Some 3) None False None
          None) = Inr ([0, 0, 0], 0)
   \<and> last (snd (gmres lstsq_normal shift3 unit3 None (1 / 100000) (Some 2) (Some 3) None False
                  None None)) = Resid_test 1 (1 / 100000)
   \<and> \<not> (1 :: real) \<le> 1 / 100000
   \<and> (0 :: int) \<noteq> 3"
  using gmres_budget_overshoot by simp

end
